theory Spec2Isabelle
  imports Main "HOL-Library.AList"
begin

section \<open>HALbridge sandboxed code execution (modules/code.py)\<close>

text \<open>
  A shallow embedding of the sandbox core of \<^verbatim>\<open>modules/code.py\<close>: configuration loading,
  profile resolution, the textual preflight scan, the synthesized wrapper, the process
  runner and the two entry points \<^verbatim>\<open>run_snippet\<close> and \<^verbatim>\<open>run_file\<close>.

  Conventions of the model.
  \<^item> A Python \<^verbatim>\<open>str\<close> is a \<^typ>\<open>string\<close>; a \<^typ>\<open>char\<close> stands for the code point of the
    same number, so the model covers text over the code points below 256.
  \<^item> A JSON value is a \<^verbatim>\<open>json\<close>; a \<^verbatim>\<open>dict\<close> is an association list in insertion
    order. JSON numbers are integers (no floats in the model).
  \<^item> An exception that leaves a function is the \<open>Inl\<close> branch of its result.
  \<^item> The host (file store, configuration file, environment variables, child processes,
    optional collaborator modules) is a record \<^verbatim>\<open>world\<close>; every effect of a call is
    written to its \<^verbatim>\<open>trace\<close>.
\<close>

subsection \<open>Python values and exceptions\<close>

datatype py_error =
  TypeError | AttributeError | ValueError | OSError

datatype json =
  JNull | JBool bool | JInt int | JStr string | JList "json list" | JObj "(string \<times> json) list"

type_synonym pydict = "(string \<times> json) list"

text \<open>Truth value of an object, as \<^verbatim>\<open>or\<close>, \<^verbatim>\<open>if\<close> and \<^verbatim>\<open>bool()\<close> read it.\<close>

fun truthy :: "json \<Rightarrow> bool" where
  "truthy JNull = False"
| "truthy (JBool b) = b"
| "truthy (JInt n) = (n \<noteq> 0)"
| "truthy (JStr s) = (s \<noteq> [])"
| "truthy (JList xs) = (xs \<noteq> [])"
| "truthy (JObj d) = (d \<noteq> [])"

text \<open>\<^verbatim>\<open>d.get(k, default)\<close> for a string key.\<close>

definition dict_get :: "pydict \<Rightarrow> string \<Rightarrow> json \<Rightarrow> json" where
  "dict_get d k dflt = (case map_of d k of Some v \<Rightarrow> v | None \<Rightarrow> dflt)"

subsection \<open>Characters, lines and decimal numerals\<close>

definition quote :: char where "quote = CHR 0x27"
definition LF :: char where "LF = CHR 0x0A"
definition CR :: char where "CR = CHR 0x0D"

text \<open>\<^verbatim>\<open>\w\<close> of a \<^verbatim>\<open>str\<close> pattern: alphanumeric code points and the underscore.\<close>

definition is_word :: "char \<Rightarrow> bool" where
  "is_word c = (let n = (of_char c :: nat) in
     (48 \<le> n \<and> n \<le> 57) \<or> (65 \<le> n \<and> n \<le> 90) \<or> n = 95 \<or> (97 \<le> n \<and> n \<le> 122) \<or>
     n = 170 \<or> n = 178 \<or> n = 179 \<or> n = 181 \<or> n = 185 \<or> n = 186 \<or>
     (188 \<le> n \<and> n \<le> 190) \<or> (192 \<le> n \<and> n \<le> 214) \<or> (216 \<le> n \<and> n \<le> 246) \<or> 248 \<le> n)"

text \<open>\<^verbatim>\<open>\s\<close> of a \<^verbatim>\<open>str\<close> pattern.\<close>

definition is_space :: "char \<Rightarrow> bool" where
  "is_space c = (let n = (of_char c :: nat) in
     (9 \<le> n \<and> n \<le> 13) \<or> (28 \<le> n \<and> n \<le> 32) \<or> n = 133 \<or> n = 160)"

text \<open>The line boundaries of \<^verbatim>\<open>str.splitlines\<close> (CR LF counts as one).\<close>

definition is_linebreak :: "char \<Rightarrow> bool" where
  "is_linebreak c = (let n = (of_char c :: nat) in
     (10 \<le> n \<and> n \<le> 13) \<or> (28 \<le> n \<and> n \<le> 30) \<or> n = 133)"

fun splitlines_from :: "string \<Rightarrow> string \<Rightarrow> string list" where
  "splitlines_from cur [] = (if cur = [] then [] else [cur])"
| "splitlines_from cur [c] = (if is_linebreak c then [cur] else [cur @ [c]])"
| "splitlines_from cur (c # d # cs) =
     (if c = CR \<and> d = LF then cur # splitlines_from [] cs
      else if is_linebreak c then cur # splitlines_from [] (d # cs)
      else splitlines_from (cur @ [c]) (d # cs))"

definition splitlines :: "string \<Rightarrow> string list" where
  "splitlines s = splitlines_from [] s"

definition digit_char :: "nat \<Rightarrow> char" where
  "digit_char d = ''0123456789'' ! d"

function str_nat :: "nat \<Rightarrow> string" where
  "str_nat n = (if n < 10 then [digit_char n] else str_nat (n div 10) @ [digit_char (n mod 10)])"
  by pat_completeness auto
termination
  by (relation "measure id") auto

definition str_int :: "int \<Rightarrow> string" where
  "str_int i = (if i < 0 then CHR ''-'' # str_nat (nat (- i)) else str_nat (nat i))"

text \<open>\<^verbatim>\<open>sep.join(xs)\<close>.\<close>

fun join :: "string \<Rightarrow> string list \<Rightarrow> string" where
  "join sep [] = []"
| "join sep [x] = x"
| "join sep (x # y # ys) = x @ sep @ join sep (y # ys)"

subsection \<open>The two regular expressions of the preflight scan\<close>

text \<open>
  \<^verbatim>\<open>re.search(rf"\b(import|from)\s+{re.escape(m)}\b", L)\<close>. The escaped name matches
  itself literally. \<^verbatim>\<open>\b\<close> holds between two positions when exactly one of the two
  neighbouring characters is a word character; the ends of the line count as non-word.
\<close>

definition word_opt :: "char option \<Rightarrow> bool" where
  "word_opt p = (case p of None \<Rightarrow> False | Some c \<Rightarrow> is_word c)"

definition next_char :: "string \<Rightarrow> char option" where
  "next_char s = (case s of [] \<Rightarrow> None | c # _ \<Rightarrow> Some c)"

definition boundary :: "char option \<Rightarrow> string \<Rightarrow> bool" where
  "boundary prev s = (word_opt prev \<noteq> word_opt (next_char s))"

definition starts :: "string \<Rightarrow> string \<Rightarrow> bool" where
  "starts lit s = (take (length lit) s = lit)"

text \<open>The literal \<open>m\<close> and the closing \<^verbatim>\<open>\b\<close>; \<open>p\<close> is the character before the literal.\<close>

definition lit_b :: "char \<Rightarrow> string \<Rightarrow> string \<Rightarrow> bool" where
  "lit_b p m s = (starts m s \<and> boundary (Some (last (p # m))) (drop (length m) s))"

text \<open>\<^verbatim>\<open>\s+\<close> with backtracking: any non-empty run of whitespace may be followed by the literal.\<close>

fun after_ws :: "string \<Rightarrow> string \<Rightarrow> bool" where
  "after_ws m [] = False"
| "after_ws m (c # cs) = (is_space c \<and> (lit_b c m cs \<or> after_ws m cs))"

definition kw_here :: "char option \<Rightarrow> string \<Rightarrow> string \<Rightarrow> bool" where
  "kw_here prev m s = (boundary prev s \<and>
     ((starts ''import'' s \<and> after_ws m (drop 6 s)) \<or> (starts ''from'' s \<and> after_ws m (drop 4 s))))"

fun search_import :: "char option \<Rightarrow> string \<Rightarrow> string \<Rightarrow> bool" where
  "search_import prev m [] = kw_here prev m []"
| "search_import prev m (c # cs) = (kw_here prev m (c # cs) \<or> search_import (Some c) m cs)"

definition re_search_import :: "string \<Rightarrow> string \<Rightarrow> bool" where
  "re_search_import m L = search_import None m L"

text \<open>\<^verbatim>\<open>re.search(rf"{re.escape(c)}\s*\(", L)\<close>.\<close>

definition call_here :: "string \<Rightarrow> string \<Rightarrow> bool" where
  "call_here c s = (starts c s \<and> starts ''('' (dropWhile is_space (drop (length c) s)))"

fun search_call :: "string \<Rightarrow> string \<Rightarrow> bool" where
  "search_call c [] = call_here c []"
| "search_call c (x # xs) = (call_here c (x # xs) \<or> search_call c xs)"

definition re_search_call :: "string \<Rightarrow> string \<Rightarrow> bool" where
  "re_search_call c L = search_call c L"

subsection \<open>Security policy and preflight\<close>

record SecurityPolicy =
  blocked_imports :: "json list"
  blocked_calls :: "json list"

definition import_msg :: "string \<Rightarrow> nat \<Rightarrow> string" where
  "import_msg m i = ''SandboxViolation: blocked import '' @ [quote] @ m @ [quote] @
     '' (line '' @ str_nat i @ '')''"

definition call_msg :: "string \<Rightarrow> nat \<Rightarrow> string" where
  "call_msg c i = ''SandboxViolation: blocked call '' @ [quote] @ c @ [quote] @
     '' (line '' @ str_nat i @ '')''"

text \<open>
  The inner loops append to \<open>out\<close>. \<^verbatim>\<open>re.escape\<close> raises \<^verbatim>\<open>TypeError\<close> on an entry that is
  not a string, which ends the scan.
\<close>

fun imports_loop :: "string \<Rightarrow> nat \<Rightarrow> json list \<Rightarrow> string list \<Rightarrow> py_error + string list" where
  "imports_loop L i [] out = Inr out"
| "imports_loop L i (JStr m # ms) out =
     imports_loop L i ms (if re_search_import m L then out @ [import_msg m i] else out)"
| "imports_loop L i (_ # ms) out = Inl TypeError"

fun calls_loop :: "string \<Rightarrow> nat \<Rightarrow> json list \<Rightarrow> string list \<Rightarrow> py_error + string list" where
  "calls_loop L i [] out = Inr out"
| "calls_loop L i (JStr c # cs) out =
     calls_loop L i cs (if re_search_call c L then out @ [call_msg c i] else out)"
| "calls_loop L i (_ # cs) out = Inl TypeError"

fun lines_loop :: "SecurityPolicy \<Rightarrow> nat \<Rightarrow> string list \<Rightarrow> string list \<Rightarrow> py_error + string list" where
  "lines_loop pol i [] out = Inr out"
| "lines_loop pol i (L # Ls) out =
     (case imports_loop L i (blocked_imports pol) out of
        Inl e \<Rightarrow> Inl e
      | Inr out1 \<Rightarrow>
          (case calls_loop L i (blocked_calls pol) out1 of
             Inl e \<Rightarrow> Inl e
           | Inr out2 \<Rightarrow> lines_loop pol (Suc i) Ls out2))"

definition preflight_check :: "string \<Rightarrow> SecurityPolicy \<Rightarrow> py_error + string list" where
  "preflight_check code_str policy = lines_loop policy 1 (splitlines code_str) []"

subsection \<open>Configuration\<close>

definition policy_entry :: "string list \<Rightarrow> string list \<Rightarrow> json" where
  "policy_entry imps calls =
     JObj [(''blocked_imports'', JList (map JStr imps)), (''blocked_calls'', JList (map JStr calls))]"

definition DEFAULT_CFG :: pydict where
  "DEFAULT_CFG =
     [(''exec_timeout_sec'', JInt 8),
      (''gen_timeout_sec'', JInt 20),
      (''token_budget'', JInt 2000),
      (''profile'', JStr ''headless''),
      (''policy_overrides'', JObj
         [(''headless'', policy_entry [''matplotlib'', ''tkinter'', ''pygame'', ''requests'', ''socket'']
                                      [''os.system'']),
          (''iot'', policy_entry [''matplotlib'', ''tkinter'', ''pygame'', ''requests'', ''socket'']
                                 [''os.system'']),
          (''analysis'', policy_entry [''tkinter'', ''pygame'', ''socket''] [''os.system''])])]"

text \<open>
  \<^verbatim>\<open>deep_merge(dst, src)\<close>: the loop over \<^verbatim>\<open>src.items()\<close>. A key whose value is a dict on
  both sides is merged recursively in place; any other key is assigned. Assignment keeps
  the position of an existing key and appends a new one, as \<open>AList.update\<close> does.
\<close>

fun deep_merge :: "pydict \<Rightarrow> pydict \<Rightarrow> pydict" where
  "deep_merge dst [] = dst"
| "deep_merge dst ((k, JObj vs) # src) =
     deep_merge
       (case map_of dst k of
          Some (JObj ds) \<Rightarrow> AList.update k (JObj (deep_merge ds vs)) dst
        | _ \<Rightarrow> AList.update k (JObj vs) dst) src"
| "deep_merge dst ((k, v) # src) = deep_merge (AList.update k v dst) src"

text \<open>
  The configuration file as \<^verbatim>\<open>_load_cfg\<close> meets it: absent, present but not readable as
  JSON (\<^verbatim>\<open>read_text\<close> or \<^verbatim>\<open>json.loads\<close> raises), or holding a JSON value.
\<close>

datatype cfg_file = CfgMissing | CfgUnreadable | CfgParsed json

text \<open>
  The body of the \<^verbatim>\<open>try\<close> block once \<^verbatim>\<open>json.loads\<close> has returned \<open>data\<close>:
  \<^verbatim>\<open>deep_merge(merged, data or {})\<close>. A true value that is not a dict has no \<^verbatim>\<open>items\<close>.
\<close>

definition merge_loaded :: "json \<Rightarrow> py_error + pydict" where
  "merge_loaded data =
     (case (if truthy data then data else JObj []) of
        JObj src \<Rightarrow> Inr (deep_merge DEFAULT_CFG src)
      | _ \<Rightarrow> Inl AttributeError)"

text \<open>
  \<^verbatim>\<open>_load_cfg\<close>: returns the configuration and the state of the file afterwards. Every
  exception of the \<^verbatim>\<open>try\<close> block is caught and answered with the defaults.
\<close>

definition load_cfg :: "cfg_file \<Rightarrow> pydict \<times> cfg_file" where
  "load_cfg f =
     (case f of
        CfgMissing \<Rightarrow> (DEFAULT_CFG, CfgParsed (JObj DEFAULT_CFG))
      | CfgUnreadable \<Rightarrow> (DEFAULT_CFG, f)
      | CfgParsed data \<Rightarrow>
          (case merge_loaded data of
             Inl e \<Rightarrow> (DEFAULT_CFG, f)
           | Inr merged \<Rightarrow> (merged, f)))"

subsection \<open>Environment and profile\<close>

record environment =
  env_os :: string
  env_os_release :: string
  env_python :: string
  is_ssh :: bool
  display :: string
  has_gui :: bool
  is_tty :: bool
  env_user :: string
  env_hostname :: string

text \<open>What \<^verbatim>\<open>detect_environment\<close> reads from the host.\<close>

record host =
  os_environ :: "(string \<times> string) list"
  platform_system :: string
  platform_release :: string
  platform_python_version :: string
  stdout_isatty :: "bool option"
  getuser :: string
  gethostname :: string

text \<open>\<^verbatim>\<open>a or b\<close> on two results of \<^verbatim>\<open>env.get\<close>.\<close>

definition get_or :: "string option \<Rightarrow> string option \<Rightarrow> string option" where
  "get_or a b = (case a of Some s \<Rightarrow> (if s \<noteq> [] then a else b) | None \<Rightarrow> b)"

definition str_bool :: "string option \<Rightarrow> bool" where
  "str_bool a = (case a of Some s \<Rightarrow> s \<noteq> [] | None \<Rightarrow> False)"

definition detect_environment :: "host \<Rightarrow> environment" where
  "detect_environment h =
     (let env = map_of (os_environ h);
          disp = get_or (env ''DISPLAY'') (env ''WAYLAND_DISPLAY'');
          ssh = str_bool (get_or (env ''SSH_CONNECTION'') (env ''SSH_CLIENT''));
          tty = (case stdout_isatty h of Some b \<Rightarrow> b | None \<Rightarrow> False)
      in \<lparr>env_os = platform_system h,
          env_os_release = platform_release h,
          env_python = platform_python_version h,
          is_ssh = ssh,
          display = (case disp of Some s \<Rightarrow> s | None \<Rightarrow> []),
          has_gui = str_bool disp,
          is_tty = tty,
          env_user = getuser h,
          env_hostname = gethostname h\<rparr>)"

text \<open>\<^verbatim>\<open>override or cfg.get("profile", "headless")\<close>; the parameter \<open>env\<close> is not read.\<close>

definition get_profile :: "environment \<Rightarrow> string option \<Rightarrow> pydict \<Rightarrow> json" where
  "get_profile env override cfg =
     (case override of
        Some s \<Rightarrow> (if s \<noteq> [] then JStr s else dict_get cfg ''profile'' (JStr ''headless''))
      | None \<Rightarrow> dict_get cfg ''profile'' (JStr ''headless''))"

text \<open>\<^verbatim>\<open>x.get(key, default)\<close> where \<open>x\<close> and \<open>key\<close> are any values.\<close>

definition py_get :: "json \<Rightarrow> json \<Rightarrow> json \<Rightarrow> py_error + json" where
  "py_get x key dflt =
     (case x of
        JObj d \<Rightarrow>
          (case key of
             JStr k \<Rightarrow> Inr (dict_get d k dflt)
           | JList _ \<Rightarrow> Inl TypeError
           | JObj _ \<Rightarrow> Inl TypeError
           | _ \<Rightarrow> Inr dflt)
      | _ \<Rightarrow> Inl AttributeError)"

text \<open>\<^verbatim>\<open>list(x)\<close>.\<close>

definition py_list :: "json \<Rightarrow> py_error + json list" where
  "py_list x =
     (case x of
        JList xs \<Rightarrow> Inr xs
      | JStr s \<Rightarrow> Inr (map (\<lambda>c. JStr [c]) s)
      | JObj d \<Rightarrow> Inr (map (\<lambda>kv. JStr (fst kv)) d)
      | _ \<Rightarrow> Inl TypeError)"

definition policy_for_profile :: "json \<Rightarrow> pydict \<Rightarrow> py_error + SecurityPolicy" where
  "policy_for_profile profile cfg =
     (case py_get (dict_get cfg ''policy_overrides'' (JObj [])) profile (JObj []) of
        Inl e \<Rightarrow> Inl e
      | Inr p \<Rightarrow>
          (case py_get p (JStr ''blocked_imports'') (JList []) of
             Inl e \<Rightarrow> Inl e
           | Inr bi \<Rightarrow>
               (case py_list bi of
                  Inl e \<Rightarrow> Inl e
                | Inr imps \<Rightarrow>
                    (case py_get p (JStr ''blocked_calls'') (JList []) of
                       Inl e \<Rightarrow> Inl e
                     | Inr bc \<Rightarrow>
                         (case py_list bc of
                            Inl e \<Rightarrow> Inl e
                          | Inr calls \<Rightarrow>
                              Inr \<lparr>blocked_imports = imps, blocked_calls = calls\<rparr>)))))"

subsection \<open>Rendering values into the wrapper text\<close>

definition dquote :: char where "dquote = CHR 0x22"
definition backslash :: char where "backslash = CHR 0x5C"

definition hex_char :: "nat \<Rightarrow> char" where
  "hex_char d = ''0123456789abcdef'' ! d"

definition hex2 :: "nat \<Rightarrow> string" where
  "hex2 n = [hex_char (n div 16 mod 16), hex_char (n mod 16)]"

text \<open>\<^verbatim>\<open>json.dumps\<close> with its defaults (\<^verbatim>\<open>ensure_ascii=True\<close>, separators \<^verbatim>\<open>", "\<close> and \<^verbatim>\<open>": "\<close>).\<close>

definition json_escape_char :: "char \<Rightarrow> string" where
  "json_escape_char c = (let n = (of_char c :: nat) in
     if c = dquote then [backslash, dquote]
     else if c = backslash then [backslash, backslash]
     else if n = 10 then [backslash, CHR ''n'']
     else if n = 13 then [backslash, CHR ''r'']
     else if n = 9 then [backslash, CHR ''t'']
     else if n = 8 then [backslash, CHR ''b'']
     else if n = 12 then [backslash, CHR ''f'']
     else if 32 \<le> n \<and> n \<le> 126 then [c]
     else [backslash, CHR ''u'', CHR ''0'', CHR ''0''] @ hex2 n)"

definition json_str :: "string \<Rightarrow> string" where
  "json_str s = [dquote] @ concat (map json_escape_char s) @ [dquote]"

fun json_dumps :: "json \<Rightarrow> string" where
  "json_dumps JNull = ''null''"
| "json_dumps (JBool b) = (if b then ''true'' else ''false'')"
| "json_dumps (JInt n) = str_int n"
| "json_dumps (JStr s) = json_str s"
| "json_dumps (JList xs) = ''['' @ join '', '' (map json_dumps xs) @ '']''"
| "json_dumps (JObj d) =
     ''{'' @ join '', '' (map (\<lambda>kv. json_str (fst kv) @ '': '' @ json_dumps (snd kv)) d) @ ''}''"

text \<open>\<^verbatim>\<open>repr\<close> of a \<^verbatim>\<open>str\<close>, the \<^verbatim>\<open>!r\<close> conversion of the template.\<close>

definition py_printable :: "char \<Rightarrow> bool" where
  "py_printable c = (let n = (of_char c :: nat) in
     (32 \<le> n \<and> n \<le> 126) \<or> (161 \<le> n \<and> n \<noteq> 173))"

definition repr_char :: "char \<Rightarrow> char \<Rightarrow> string" where
  "repr_char q c = (let n = (of_char c :: nat) in
     if c = q \<or> c = backslash then [backslash, c]
     else if n = 9 then [backslash, CHR ''t'']
     else if n = 10 then [backslash, CHR ''n'']
     else if n = 13 then [backslash, CHR ''r'']
     else if py_printable c then [c]
     else [backslash, CHR ''x''] @ hex2 n)"

definition py_repr :: "string \<Rightarrow> string" where
  "py_repr s =
     (let q = (if quote \<in> set s \<and> dquote \<notin> set s then dquote else quote)
      in [q] @ concat (map (repr_char q) s) @ [q])"

subsection \<open>The wrapper\<close>

text \<open>
  \<^verbatim>\<open>_wrapper_source\<close>: the program text after \<^verbatim>\<open>textwrap.dedent\<close> and \<^verbatim>\<open>strip\<close>, one
  list entry per line, each line followed by a newline.
\<close>

definition wrapper_lines :: "string \<Rightarrow> SecurityPolicy \<Rightarrow> string list" where
  \<open>wrapper_lines user_code_path policy =
     [''import sys, runpy, os, importlib.abc'',
      ''BLOCKED = set('' @ json_dumps (JList (blocked_imports policy)) @ '')'',
      ''CALLS = set('' @ json_dumps (JList (blocked_calls policy)) @ '')'',
      ''class BlockedFinder(importlib.abc.MetaPathFinder):'',
      ''    def find_spec(self, fullname, path=None, target=None):'',
      ''        root = fullname.split('.', 1)[0]'',
      ''        if root in BLOCKED:'',
      ''            raise ImportError(f"SandboxViolation: blocked import '{root}'")'',
      ''        return None'',
      ''sys.meta_path.insert(0, BlockedFinder())'',
      ''if "os.system" in CALLS:'',
      ''    def _blocked(*a, **k):'',
      ''        raise RuntimeError("SandboxViolation: blocked call 'os.system'")'',
      ''    os.system = _blocked'',
      ''try:'',
      ''    runpy.run_path('' @ py_repr user_code_path @ '', run_name="__main__")'',
      ''except ImportError as e:'',
      ''    sys.stderr.write(str(e) + "'' @ [backslash] @ ''n"); sys.exit(2)'',
      ''except Exception:'',
      ''    import traceback; traceback.print_exc(); sys.exit(1)'']\<close>

definition wrapper_source :: "string \<Rightarrow> SecurityPolicy \<Rightarrow> string" where
  "wrapper_source user_code_path policy =
     concat (map (\<lambda>l. l @ [LF]) (wrapper_lines user_code_path policy))"

text \<open>
  What the wrapper text does when it runs, statement by statement. Exceptions of the
  child are a class (with its base classes), the text of \<^verbatim>\<open>str(e)\<close> and the stack text
  that \<^verbatim>\<open>traceback.print_exc\<close> prints under its header line.
\<close>

datatype exc_class =
    BaseException | SystemExit | KeyboardInterrupt | GeneratorExit | Exception
  | ImportError | ModuleNotFoundError | RuntimeError
  | OtherException string
  | Subclass string exc_class

text \<open>\<^verbatim>\<open>issubclass\<close>; \<open>OtherException\<close> is any other built-in class below \<^verbatim>\<open>Exception\<close>.\<close>

fun is_subclass :: "exc_class \<Rightarrow> exc_class \<Rightarrow> bool" where
  "is_subclass BaseException t = (t = BaseException)"
| "is_subclass SystemExit t = (t = SystemExit \<or> t = BaseException)"
| "is_subclass KeyboardInterrupt t = (t = KeyboardInterrupt \<or> t = BaseException)"
| "is_subclass GeneratorExit t = (t = GeneratorExit \<or> t = BaseException)"
| "is_subclass Exception t = (t = Exception \<or> t = BaseException)"
| "is_subclass ImportError t = (t = ImportError \<or> t = Exception \<or> t = BaseException)"
| "is_subclass ModuleNotFoundError t =
     (t = ModuleNotFoundError \<or> t = ImportError \<or> t = Exception \<or> t = BaseException)"
| "is_subclass RuntimeError t = (t = RuntimeError \<or> t = Exception \<or> t = BaseException)"
| "is_subclass (OtherException n) t = (t = OtherException n \<or> t = Exception \<or> t = BaseException)"
| "is_subclass (Subclass n b) t = (t = Subclass n b \<or> is_subclass b t)"

record exc =
  exc_cls :: exc_class
  exc_str :: string
  exc_stack :: string

definition print_exc :: "exc \<Rightarrow> string" where
  "print_exc e = ''Traceback (most recent call last):'' @ [LF] @ exc_stack e"

text \<open>The exception \<^verbatim>\<open>BlockedFinder.find_spec\<close> raises for a blocked root.\<close>

definition blocked_import_text :: "string \<Rightarrow> string" where
  "blocked_import_text root = ''SandboxViolation: blocked import '' @ [quote] @ root @ [quote]"

definition blocked_import_error :: "string \<Rightarrow> string \<Rightarrow> exc" where
  "blocked_import_error root stack =
     \<lparr>exc_cls = ImportError, exc_str = blocked_import_text root, exc_stack = stack\<rparr>"

text \<open>The blocked-import error is told from other errors by its class and its marker.\<close>

definition is_blocked_import_error :: "exc \<Rightarrow> bool" where
  "is_blocked_import_error e =
     (exc_cls e = ImportError \<and> starts (''SandboxViolation: blocked import '' @ [quote]) (exc_str e))"

text \<open>\<^verbatim>\<open>fullname.split('.', 1)[0]\<close>.\<close>

definition split_root :: "string \<Rightarrow> string" where
  "split_root fullname = takeWhile (\<lambda>c. c \<noteq> CHR ''.'') fullname"

text \<open>
  \<^verbatim>\<open>find_spec\<close>: \<open>None\<close> when the finder returns \<^verbatim>\<open>None\<close> and the import goes on to the next
  finder, \<open>Some root\<close> when it raises the blocked-import error for \<open>root\<close>.
\<close>

definition find_spec :: "SecurityPolicy \<Rightarrow> string \<Rightarrow> string option" where
  "find_spec policy fullname =
     (let root = split_root fullname
      in if JStr root \<in> set (blocked_imports policy) then Some root else None)"

text \<open>\<^verbatim>\<open>"os.system" in CALLS\<close>: whether \<^verbatim>\<open>os.system\<close> is replaced by the raising stand-in.\<close>

definition os_system_replaced :: "SecurityPolicy \<Rightarrow> bool" where
  "os_system_replaced policy = (JStr ''os.system'' \<in> set (blocked_calls policy))"

text \<open>
  The target program, as far as the wrapper is concerned: given the import interceptor
  and whether \<^verbatim>\<open>os.system\<close> is replaced, \<^verbatim>\<open>runpy.run_path\<close> returns or raises.
\<close>

datatype run_outcome = Returned | Raised exc

type_synonym target_program = "(string \<Rightarrow> string option) \<Rightarrow> bool \<Rightarrow> run_outcome"

text \<open>
  How the wrapper ends: it exits with a code after writing text to the error stream, or
  the exception is none of its \<^verbatim>\<open>except\<close> clauses' and leaves the wrapper uncaught.
\<close>

datatype wrapper_end = Exit int string | Uncaught exc

definition guard :: "run_outcome \<Rightarrow> wrapper_end" where
  "guard r =
     (case r of
        Returned \<Rightarrow> Exit 0 []
      | Raised e \<Rightarrow>
          (if is_subclass (exc_cls e) ImportError then Exit 2 (exc_str e @ [LF])
           else if is_subclass (exc_cls e) Exception then Exit 1 (print_exc e)
           else Uncaught e))"

definition exec_wrapper :: "SecurityPolicy \<Rightarrow> target_program \<Rightarrow> wrapper_end" where
  "exec_wrapper policy prog = guard (prog (find_spec policy) (os_system_replaced policy))"

subsection \<open>Prompt analysis and result validation (modules/intelligence.py)\<close>

text \<open>\<^verbatim>\<open>sub in s\<close>.\<close>

fun contains :: "string \<Rightarrow> string \<Rightarrow> bool" where
  "contains sub [] = starts sub []"
| "contains sub (c # cs) = (starts sub (c # cs) \<or> contains sub cs)"

text \<open>\<^verbatim>\<open>str.lower\<close> on the code points of the model.\<close>

definition lower_char :: "char \<Rightarrow> char" where
  "lower_char c = (let n = (of_char c :: nat) in
     if (65 \<le> n \<and> n \<le> 90) \<or> (192 \<le> n \<and> n \<le> 222 \<and> n \<noteq> 215) then char_of (n + 32) else c)"

datatype task_type = Data | Network | Iot | TextTask | Viz | System

text \<open>
  The keyword lists of \<^verbatim>\<open>analyze_prompt\<close>; the one keyword with a code point above 255
  cannot occur in a prompt of the model and is left out of its list.
\<close>

definition analyze_prompt :: "string \<Rightarrow> task_type" where
  "analyze_prompt prompt =
     (let p = map lower_char prompt; has = (\<lambda>ks. \<exists>x \<in> set ks. contains x p)
      in if has [''csv'', ''xlsx'', ''analiza'', ''wykres'', ''pandas''] then Data
         else if has [''http'', ''url'', ''pobierz'', ''api'', ''network''] then Network
         else if has [''mqtt'', ''shelly'', ''sensor'', ''gpio'', ''iot''] then Iot
         else if has [''ascii'', ''tekst'', ''string'', ''markdown''] then TextTask
         else if has [''matplotlib'', ''plot'', ''image'', ''wykres''] then Viz
         else if has [''system'', ''bash'', ''os.system''] then System
         else TextTask)"

fun choose_profile :: "task_type \<Rightarrow> string" where
  "choose_profile Data = ''analysis''"
| "choose_profile Network = ''headless''"
| "choose_profile Iot = ''iot''"
| "choose_profile TextTask = ''headless''"
| "choose_profile Viz = ''headless''"
| "choose_profile System = ''headless''"

text \<open>The four fixed hint sentences of \<^verbatim>\<open>suggest_fix\<close>.\<close>

datatype hint = CheckSyntax | MissingLibrary | RanTooLong | UnknownError

definition suggest_fix :: "string \<Rightarrow> hint" where
  "suggest_fix err =
     (if contains ''SyntaxError'' err then CheckSyntax
      else if contains ''ModuleNotFoundError'' err then MissingLibrary
      else if contains ''TimeoutExpired'' err then RanTooLong
      else UnknownError)"

subsection \<open>The host and its effects\<close>

text \<open>The \<^verbatim>\<open>preexec_fn\<close> of a spawn request: the two \<^verbatim>\<open>setrlimit\<close> calls and their limits.\<close>

datatype preexec = ResourceLimits nat nat

text \<open>\<^verbatim>\<open>_preexec_resource_limits\<close> of gpt_chat_v3.py (256 MB of address space, 30 CPU seconds).\<close>

definition preexec_resource_limits :: preexec where
  "preexec_resource_limits = ResourceLimits (256 * 1024 * 1024) 30"

record spawn_req =
  argv :: "string list"
  stdout_pipe :: bool
  stderr_pipe :: bool
  text_mode :: bool
  timeout_sec :: "int option"
  child_env :: "(string \<times> string) list option"
  preexec_fn :: "preexec option"

text \<open>
  What \<^verbatim>\<open>subprocess.run\<close> does with a request: the child ends by itself, or the timeout
  expires (the child is killed; the output read so far travels with the exception), or
  the call raises for another reason.
\<close>

datatype proc_outcome =
    Completed int string string
  | TimeoutExpired string string
  | SpawnFailed py_error

record log_rec =
  log_src :: string
  log_path :: "string option"
  log_profile :: json
  log_returncode :: int
  log_stderr_len :: nat
  log_stdout_len :: nat
  log_duration_ms :: int

datatype event =
    WriteConfig string string
  | WriteText string string
  | Unlink string
  | Spawn spawn_req
  | LogEvent log_rec
  | Publish string
  | Route
  | SaveArtifact
  | RegisterPath string
  | RecordFailure string

text \<open>
  The world of one call. \<open>files\<close> maps the path of each regular file to its text; writing
  and unlinking always succeed. The configuration file is kept apart in \<open>cfg_state\<close>, with
  an event of its own when it is written. \<open>subprocess_run\<close> answers a request from the files the
  child finds, with the elapsed milliseconds; the child leaves the files as they are.
  \<open>resolve_path\<close> is \<^verbatim>\<open>Path(p).expanduser().resolve()\<close> and \<open>int_of_str\<close> is \<^verbatim>\<open>int\<close> on a
  string (\<open>None\<close> when it raises). The \<open>has_\<close> fields say which optional modules were
  imported.
\<close>

record world =
  host_info :: host
  home_dir :: string
  sys_executable :: string
  cfg_state :: cfg_file
  files :: "string \<rightharpoonup> string"
  uuid4_hex :: "nat \<Rightarrow> string"
  uuid_calls :: nat
  subprocess_run :: "spawn_req \<Rightarrow> (string \<rightharpoonup> string) \<Rightarrow> proc_outcome \<times> int"
  resolve_path :: "string \<Rightarrow> string"
  int_of_str :: "string \<Rightarrow> int option"
  has_bus :: bool
  has_intelligence :: bool
  has_integration :: bool
  has_code_registry :: bool
  has_auto_heal :: bool
  trace :: "event list"

definition emit :: "world \<Rightarrow> event \<Rightarrow> world" where
  "emit w e = w\<lparr>trace := trace w @ [e]\<rparr>"

definition write_text :: "world \<Rightarrow> string \<Rightarrow> string \<Rightarrow> world" where
  "write_text w p s = emit (w\<lparr>files := (files w)(p \<mapsto> s)\<rparr>) (WriteText p s)"

definition unlink :: "world \<Rightarrow> string \<Rightarrow> world" where
  "unlink w p = emit (w\<lparr>files := (files w)(p := None)\<rparr>) (Unlink p)"

definition publish :: "world \<Rightarrow> string \<Rightarrow> world" where
  "publish w topic = (if has_bus w then emit w (Publish topic) else w)"

definition log_event :: "world \<Rightarrow> log_rec \<Rightarrow> world" where
  "log_event w r = emit w (LogEvent r)"

definition fresh_uuid :: "world \<Rightarrow> string \<times> world" where
  "fresh_uuid w = (uuid4_hex w (uuid_calls w), w\<lparr>uuid_calls := Suc (uuid_calls w)\<rparr>)"

definition TMP_DIR :: "world \<Rightarrow> string" where
  "TMP_DIR w = home_dir w @ ''/.local/share/halbridge/tmp''"

definition CFG_PATH :: "world \<Rightarrow> string" where
  "CFG_PATH w = home_dir w @ ''/.config/halbridge/code_config.json''"

text \<open>\<^verbatim>\<open>_load_cfg\<close> in the world: a missing file is written from the defaults.\<close>

definition load_cfg_in :: "world \<Rightarrow> pydict \<times> world" where
  "load_cfg_in w =
     (let (cfg, f) = load_cfg (cfg_state w)
      in (cfg, if cfg_state w = CfgMissing
               then emit (w\<lparr>cfg_state := f\<rparr>)
                         (WriteConfig (CFG_PATH w) (json_dumps (JObj DEFAULT_CFG)))
               else w))"

subsection \<open>The process runner\<close>

definition minimal_env :: "(string \<times> string) list \<Rightarrow> (string \<times> string) list" where
  "minimal_env environ =
     AList.update ''PYTHONUNBUFFERED'' ''1''
       (filter (\<lambda>kv. fst kv \<in> {''PATH'', ''HOME'', ''LANG''} \<or> starts ''LC_'' (fst kv)) environ)"

text \<open>The arguments \<^verbatim>\<open>_execute_user_code\<close> gives to \<^verbatim>\<open>subprocess.run\<close>.\<close>

definition runner_request :: "world \<Rightarrow> string \<Rightarrow> int \<Rightarrow> spawn_req" where
  "runner_request w wp tmo =
     \<lparr>argv = [sys_executable w, wp],
      stdout_pipe = True,
      stderr_pipe = True,
      text_mode = True,
      timeout_sec = Some tmo,
      child_env = Some (minimal_env (os_environ (host_info w))),
      preexec_fn = None\<rparr>"

text \<open>
  The arguments of the capture-mode \<^verbatim>\<open>subprocess.Popen\<close> call of \<^verbatim>\<open>run_python_script\<close>
  in gpt_chat_v3.py, the runner used when the sandbox module is not available.
\<close>

definition legacy_request :: "string list \<Rightarrow> spawn_req" where
  "legacy_request cmd =
     \<lparr>argv = cmd,
      stdout_pipe = True,
      stderr_pipe = True,
      text_mode = True,
      timeout_sec = None,
      child_env = None,
      preexec_fn = Some preexec_resource_limits\<rparr>"

text \<open>
  The answer of that runner when \<^verbatim>\<open>communicate\<close> times out: it kills the child, reads the
  rest of the pipes and returns the text read, cut to \<^verbatim>\<open>PY_STDOUT_MAX\<close> characters.
\<close>

definition legacy_timeout_output :: "nat \<Rightarrow> string \<Rightarrow> string \<Rightarrow> string \<times> string" where
  "legacy_timeout_output py_stdout_max out err = (take py_stdout_max out, take py_stdout_max err)"

text \<open>\<^verbatim>\<open>_execute_user_code\<close>: return code, output, error text and elapsed milliseconds.\<close>

definition execute_user_code ::
    "world \<Rightarrow> string \<Rightarrow> SecurityPolicy \<Rightarrow> int \<Rightarrow> (py_error + int \<times> string \<times> string \<times> int) \<times> world" where
  "execute_user_code w code_path policy tmo =
     (let wrap = wrapper_source code_path policy;
          (u, w1) = fresh_uuid w;
          wp = TMP_DIR w @ ''/wrap_'' @ u @ ''.py'';
          w2 = write_text w1 wp wrap;
          req = runner_request w2 wp tmo;
          w3 = emit w2 (Spawn req);
          (outcome, ms) = subprocess_run w3 req (files w3);
          r = (case outcome of
                 Completed rc out err \<Rightarrow> Inr (rc, out, err, ms)
               | TimeoutExpired out err \<Rightarrow>
                   Inr (124, [], ''Timeout after '' @ str_int tmo @ ''s'', ms)
               | SpawnFailed e \<Rightarrow> Inl e)
      in (r, unlink w3 wp))"

subsection \<open>run\_snippet and run\_file\<close>

record exec_result =
  ok :: bool
  stdout :: string
  stderr :: string
  returncode :: int
  res_env :: environment
  res_profile :: json
  duration_ms :: int
  valid :: "bool option"
  suggestion :: "hint option"

text \<open>\<^verbatim>\<open>int(x)\<close> on a configuration value.\<close>

definition py_int :: "world \<Rightarrow> json \<Rightarrow> py_error + int" where
  "py_int w x =
     (case x of
        JInt n \<Rightarrow> Inr n
      | JBool b \<Rightarrow> Inr (if b then 1 else 0)
      | JStr s \<Rightarrow> (case int_of_str w s of Some n \<Rightarrow> Inr n | None \<Rightarrow> Inl ValueError)
      | _ \<Rightarrow> Inl TypeError)"

text \<open>The dict returned on the two early exits (preflight findings, file not found).\<close>

definition rejected :: "string \<Rightarrow> environment \<Rightarrow> json \<Rightarrow> exec_result" where
  "rejected err e prof =
     \<lparr>ok = False, stdout = [], stderr = err, returncode = 2, res_env = e, res_profile = prof,
      duration_ms = 0, valid = None, suggestion = None\<rparr>"

definition finished :: "int \<Rightarrow> string \<Rightarrow> string \<Rightarrow> int \<Rightarrow> environment \<Rightarrow> json \<Rightarrow> exec_result" where
  "finished rc out err ms e prof =
     \<lparr>ok = (rc = 0), stdout = out, stderr = err, returncode = rc, res_env = e, res_profile = prof,
      duration_ms = ms, valid = None, suggestion = None\<rparr>"

text \<open>
  \<^verbatim>\<open>validate_result\<close> and \<^verbatim>\<open>suggest_fix\<close> applied to a result when the intelligence module
  is present; a sandbox result never has a \<^verbatim>\<open>job\<close> key.
\<close>

definition validate_result :: "exec_result \<Rightarrow> bool" where
  "validate_result r = (ok r \<and> stdout r \<noteq> [])"

definition add_validation :: "world \<Rightarrow> exec_result \<Rightarrow> exec_result" where
  "add_validation w r =
     (if has_intelligence w
      then (let v = validate_result r;
                r1 = r\<lparr>valid := Some v\<rparr>
            in if \<not> v \<and> stderr r \<noteq> [] then r1\<lparr>suggestion := Some (suggest_fix (stderr r))\<rparr> else r1)
      else r)"

definition mk_log :: "string \<Rightarrow> string option \<Rightarrow> json \<Rightarrow> int \<Rightarrow> string \<Rightarrow> string \<Rightarrow> int \<Rightarrow> log_rec" where
  "mk_log src pth prof rc err out ms =
     \<lparr>log_src = src, log_path = pth, log_profile = prof, log_returncode = rc,
      log_stderr_len = length err, log_stdout_len = length out, log_duration_ms = ms\<rparr>"

text \<open>
  The prompt analysis at the head of \<^verbatim>\<open>run_snippet\<close>: with the intelligence module and a
  non-empty prompt, the analysed profile replaces the caller's.
\<close>

definition analyse_intent :: "world \<Rightarrow> string option \<Rightarrow> string option \<Rightarrow> string option \<times> world" where
  "analyse_intent w prompt override =
     (if has_intelligence w \<and> str_bool prompt
      then (let meta_profile = choose_profile (analyze_prompt (the prompt));
                w1 = publish w ''code.intent'';
                w2 = (if has_integration w1 then emit w1 Route else w1)
            in (get_or (Some meta_profile) override, w2))
      else (override, w))"

text \<open>
  The body of the \<^verbatim>\<open>try\<close> block of \<^verbatim>\<open>run_snippet\<close>, entered once the copy of the snippet
  is on disk.
\<close>

definition snippet_body ::
    "world \<Rightarrow> string \<Rightarrow> string \<Rightarrow> SecurityPolicy \<Rightarrow> pydict \<Rightarrow> environment \<Rightarrow> json
       \<Rightarrow> (py_error + exec_result) \<times> world" where
  "snippet_body w code_str code_path policy cfg e prof =
     (case py_int w (dict_get cfg ''exec_timeout_sec'' (JInt 8)) of
        Inl x \<Rightarrow> (Inl x, w)
      | Inr tmo \<Rightarrow>
          (case execute_user_code w code_path policy tmo of
             (Inl x, w1) \<Rightarrow> (Inl x, w1)
           | (Inr (rc, out, err, ms), w1) \<Rightarrow>
               (let r = finished rc out err ms e prof;
                    w2 = log_event w1 (mk_log ''snippet'' None prof rc err out ms);
                    w3 = (if has_code_registry w2 then emit w2 SaveArtifact else w2);
                    r1 = add_validation w3 r;
                    w4 = publish w3 ''code.run.done'';
                    w5 = (if has_auto_heal w4 \<and> rc \<noteq> 0 then emit w4 (RecordFailure ''snippet'') else w4)
                in (Inr r1, w5))))"

definition run_snippet ::
    "world \<Rightarrow> string \<Rightarrow> string option \<Rightarrow> string option \<Rightarrow> (py_error + exec_result) \<times> world" where
  "run_snippet w code_str prompt override =
     (let (cfg, w1) = load_cfg_in w;
          e = detect_environment (host_info w1);
          (override1, w2) = analyse_intent w1 prompt override;
          prof = get_profile e override1 cfg
      in case policy_for_profile prof cfg of
           Inl x \<Rightarrow> (Inl x, w2)
         | Inr policy \<Rightarrow>
             (let w3 = publish w2 ''code.run.start''
              in case preflight_check code_str policy of
                   Inl x \<Rightarrow> (Inl x, w3)
                 | Inr findings \<Rightarrow>
                     (if findings \<noteq> []
                      then (let err = join [LF] findings;
                                w4 = log_event w3 (mk_log ''snippet'' None prof 2 err [] 0);
                                w5 = publish w4 ''code.run.done''
                            in (Inr (rejected err e prof), w5))
                      else (let (u, w4) = fresh_uuid w3;
                                code_path = TMP_DIR w4 @ ''/user_'' @ u @ ''.py'';
                                w5 = write_text w4 code_path code_str;
                                (r, w6) = snippet_body w5 code_str code_path policy cfg e prof
                            in (r, unlink w6 code_path)))))"

text \<open>
  \<^verbatim>\<open>run_file\<close>. The second failure record at its end sits under \<^verbatim>\<open>if BUS\<close> in a \<^verbatim>\<open>try\<close>
  whose body names a variable this function does not have; the \<^verbatim>\<open>NameError\<close> is caught
  there and nothing is recorded.
\<close>

definition run_file ::
    "world \<Rightarrow> string \<Rightarrow> string option \<Rightarrow> (py_error + exec_result) \<times> world" where
  "run_file w path override =
     (let (cfg, w1) = load_cfg_in w;
          e = detect_environment (host_info w1);
          prof = get_profile e override cfg
      in case policy_for_profile prof cfg of
           Inl x \<Rightarrow> (Inl x, w1)
         | Inr policy \<Rightarrow>
             (let w2 = publish w1 ''code.run.start'';
                  p = resolve_path w2 path
              in case files w2 p of
                   None \<Rightarrow>
                     (let msg = ''File not found: '' @ p;
                          w3 = log_event w2 (mk_log ''file'' (Some p) prof 2 msg [] 0);
                          w4 = publish w3 ''code.run.done''
                      in (Inr (rejected msg e prof), w4))
                 | Some txt \<Rightarrow>
                     (case preflight_check txt policy of
                        Inl x \<Rightarrow> (Inl x, w2)
                      | Inr findings \<Rightarrow>
                          (if findings \<noteq> []
                           then (let err = join [LF] findings;
                                     w3 = log_event w2 (mk_log ''file'' (Some p) prof 2 err [] 0);
                                     w4 = publish w3 ''code.run.done''
                                 in (Inr (rejected err e prof), w4))
                           else (case py_int w2 (dict_get cfg ''exec_timeout_sec'' (JInt 8)) of
                                   Inl x \<Rightarrow> (Inl x, w2)
                                 | Inr tmo \<Rightarrow>
                                     (case execute_user_code w2 p policy tmo of
                                        (Inl x, w3) \<Rightarrow> (Inl x, w3)
                                      | (Inr (rc, out, err, ms), w3) \<Rightarrow>
                                          (let w4 = (if has_auto_heal w3 \<and> rc \<noteq> 0
                                                     then emit w3 (RecordFailure ''file'') else w3);
                                               r = finished rc out err ms e prof;
                                               w5 = log_event w4 (mk_log ''file'' (Some p) prof rc err out ms);
                                               w6 = (if has_code_registry w5
                                                     then emit w5 (RegisterPath p) else w5);
                                               r1 = add_validation w6 r;
                                               w7 = publish w6 ''code.run.done''
                                           in (Inr r1, w7))))))))"

subsection \<open>Notions used in the statements\<close>

text \<open>The events a call adds to the trace of the world it started in.\<close>

definition new_events :: "world \<Rightarrow> world \<Rightarrow> event list" where
  "new_events w w' = drop (length (trace w)) (trace w')"

fun is_spawn :: "event \<Rightarrow> bool" where
  "is_spawn (Spawn r) = True"
| "is_spawn _ = False"

text \<open>
  The path of the wrapper file that a runner started in \<open>w\<close> writes, when \<open>n\<close> identifiers
  have been drawn since.
\<close>

definition wrap_path :: "world \<Rightarrow> nat \<Rightarrow> string" where
  "wrap_path w n = TMP_DIR w @ ''/wrap_'' @ uuid4_hex w (uuid_calls w + n) @ ''.py''"

text \<open>The policy \<^verbatim>\<open>run_snippet\<close> and \<^verbatim>\<open>run_file\<close> resolve for a request (the active policy).\<close>

definition snippet_policy :: "world \<Rightarrow> string option \<Rightarrow> string option \<Rightarrow> py_error + SecurityPolicy" where
  "snippet_policy w prompt override =
     (let (cfg, w1) = load_cfg_in w;
          (override1, w2) = analyse_intent w1 prompt override
      in policy_for_profile (get_profile (detect_environment (host_info w1)) override1 cfg) cfg)"

definition file_policy :: "world \<Rightarrow> string option \<Rightarrow> py_error + SecurityPolicy" where
  "file_policy w override =
     (let (cfg, w1) = load_cfg_in w
      in policy_for_profile (get_profile (detect_environment (host_info w1)) override cfg) cfg)"

text \<open>The violation list of a request; empty where the preflight scan is not reached.\<close>

definition findings_of :: "string \<Rightarrow> py_error + SecurityPolicy \<Rightarrow> string list" where
  "findings_of txt pol =
     (case pol of
        Inl x \<Rightarrow> []
      | Inr policy \<Rightarrow> (case preflight_check txt policy of Inl x \<Rightarrow> [] | Inr fs \<Rightarrow> fs))"

definition file_findings :: "world \<Rightarrow> string \<Rightarrow> string option \<Rightarrow> string list" where
  "file_findings w path override =
     (case files w (resolve_path w path) of
        None \<Rightarrow> []
      | Some txt \<Rightarrow> findings_of txt (file_policy w override))"

text \<open>
  A line that holds an import of \<open>m\<close> as the first name after the keyword: \<^verbatim>\<open>import\<close> or
  \<^verbatim>\<open>from\<close> starting a word, whitespace, the name, and no word character after it.
\<close>

definition import_line :: "string \<Rightarrow> string \<Rightarrow> string \<Rightarrow> string \<Rightarrow> string \<Rightarrow> string" where
  "import_line pre kw ws m post = pre @ kw @ ws @ m @ post"

definition import_shape :: "string \<Rightarrow> string \<Rightarrow> string \<Rightarrow> string \<Rightarrow> string \<Rightarrow> bool" where
  "import_shape pre kw ws m post =
     ((pre = [] \<or> \<not> is_word (last pre)) \<and> (kw = ''import'' \<or> kw = ''from'') \<and>
      ws \<noteq> [] \<and> list_all is_space ws \<and> m \<noteq> [] \<and> is_word (last m) \<and>
      (post = [] \<or> \<not> is_word (hd post)))"

text \<open>Whether a list of events holds a write of the path \<open>p\<close>.\<close>

fun writes_path :: "string \<Rightarrow> event \<Rightarrow> bool" where
  "writes_path p (WriteText q t) = (q = p)"
| "writes_path p _ = False"

definition written :: "string \<Rightarrow> event list \<Rightarrow> bool" where
  "written p es = list_ex (writes_path p) es"


text \<open>The events of the steps that neither write nor run anything.\<close>

definition cfg_events :: "world \<Rightarrow> event list" where
  "cfg_events w =
     (if cfg_state w = CfgMissing
      then [WriteConfig (CFG_PATH w) (json_dumps (JObj DEFAULT_CFG))] else [])"

definition bus_events :: "world \<Rightarrow> string \<Rightarrow> event list" where
  "bus_events w topic = (if has_bus w then [Publish topic] else [])"

definition intent_events :: "world \<Rightarrow> string option \<Rightarrow> event list" where
  "intent_events w prompt =
     (if has_intelligence w \<and> str_bool prompt
      then bus_events w ''code.intent'' @ (if has_integration w then [Route] else [])
      else [])"

text \<open>A policy whose entries are all strings, as the configuration schema has them.\<close>

fun is_JStr :: "json \<Rightarrow> bool" where
  "is_JStr (JStr s) = True"
| "is_JStr _ = False"

definition strings_only :: "SecurityPolicy \<Rightarrow> bool" where
  "strings_only policy = (list_all is_JStr (blocked_imports policy) \<and> list_all is_JStr (blocked_calls policy))"

text \<open>The value a key of a dict has after \<^verbatim>\<open>deep_merge\<close> met it with the value \<open>v\<close>.\<close>

definition merged_value :: "json option \<Rightarrow> json \<Rightarrow> json" where
  "merged_value old v =
     (case (old, v) of
        (Some (JObj ds), JObj vs) \<Rightarrow> JObj (deep_merge ds vs)
      | _ \<Rightarrow> v)"

subsection \<open>Example hosts\<close>

text \<open>
  A path resolution for the examples: \<^verbatim>\<open>expanduser\<close> and \<^verbatim>\<open>resolve\<close> on a host without
  symbolic links, where the path is made absolute and normalised component by component.
\<close>

fun split_path :: "string \<Rightarrow> string \<Rightarrow> string list" where
  "split_path cur [] = [cur]"
| "split_path cur (c # cs) = (if c = CHR ''/'' then cur # split_path [] cs else split_path (cur @ [c]) cs)"

fun norm_parts :: "string list \<Rightarrow> string list \<Rightarrow> string list" where
  "norm_parts acc [] = acc"
| "norm_parts acc (x # xs) =
     (if x = [] \<or> x = ''.'' then norm_parts acc xs
      else if x = ''..'' then norm_parts (butlast acc) xs
      else norm_parts (acc @ [x]) xs)"

definition lexical_resolve :: "string \<Rightarrow> string \<Rightarrow> string \<Rightarrow> string" where
  "lexical_resolve cwd home path =
     (let parts = split_path [] path;
          expanded = (if hd parts = ''~'' then split_path [] home @ tl parts else parts);
          absolute = (if starts ''/'' path \<or> hd parts = ''~'' then expanded else split_path [] cwd @ expanded)
      in concat (map (\<lambda>x. CHR ''/'' # x) (norm_parts [] absolute)))"

definition local_host :: host where
  "local_host =
     \<lparr>os_environ = [(''PATH'', ''/usr/bin''), (''HOME'', ''/home/hal''), (''API_TOKEN'', ''s3cret'')],
      platform_system = ''Linux'', platform_release = ''6.1'', platform_python_version = ''3.11.2'',
      stdout_isatty = Some True, getuser = ''hal'', gethostname = ''bridge''\<rparr>"

definition remote_host :: host where
  "remote_host = local_host\<lparr>os_environ :=
     [(''PATH'', ''/usr/bin''), (''HOME'', ''/home/hal''), (''SSH_CONNECTION'', ''10.0.0.7 51000 10.0.0.1 22'')]\<rparr>"

text \<open>A world with no configuration file, no files and no optional modules.\<close>

definition example_world ::
    "(spawn_req \<Rightarrow> (string \<rightharpoonup> string) \<Rightarrow> proc_outcome \<times> int) \<Rightarrow> world" where
  "example_world child =
     \<lparr>host_info = local_host, home_dir = ''/home/hal'', sys_executable = ''/usr/bin/python3'',
      cfg_state = CfgMissing, files = Map.empty, uuid4_hex = (\<lambda>n. ''id'' @ str_nat n), uuid_calls = 0,
      subprocess_run = child, resolve_path = lexical_resolve ''/work'' ''/home/hal'',
      int_of_str = (\<lambda>s. None),
      has_bus = False, has_intelligence = False, has_integration = False,
      has_code_registry = False, has_auto_heal = False, trace = []\<rparr>"

text \<open>Four children: one ends well, one is ended by the wrapper with code 2, one hangs, one cannot start.\<close>

definition child_ok :: "spawn_req \<Rightarrow> (string \<rightharpoonup> string) \<Rightarrow> proc_outcome \<times> int" where
  "child_ok r fs = (Completed 0 (''hello'' @ [LF]) [], 35)"

definition child_blocked :: "spawn_req \<Rightarrow> (string \<rightharpoonup> string) \<Rightarrow> proc_outcome \<times> int" where
  "child_blocked r fs = (Completed 2 [] (blocked_import_text ''socket'' @ [LF]), 40)"

definition child_hangs :: "spawn_req \<Rightarrow> (string \<rightharpoonup> string) \<Rightarrow> proc_outcome \<times> int" where
  "child_hangs r fs = (TimeoutExpired (''tick'' @ [LF]) (''warming up'' @ [LF]), 8003)"


text \<open>
  What \<^verbatim>\<open>import numpy\<close> raises on a host where numpy is not installed, and a target that
  does nothing else.
\<close>

definition missing_module_error :: exc where
  "missing_module_error =
     \<lparr>exc_cls = ModuleNotFoundError,
      exc_str = ''No module named '' @ [quote] @ ''numpy'' @ [quote],
      exc_stack = ''ModuleNotFoundError: No module named '' @ [quote] @ ''numpy'' @ [quote] @ [LF]\<rparr>"

definition imports_numpy :: target_program where
  "imports_numpy finder os_system_off =
     (case finder ''numpy'' of
        Some root \<Rightarrow> Raised (blocked_import_error root [])
      | None \<Rightarrow> Raised missing_module_error)"

definition headless_policy :: SecurityPolicy where
  "headless_policy =
     \<lparr>blocked_imports = map JStr [''matplotlib'', ''tkinter'', ''pygame'', ''requests'', ''socket''],
      blocked_calls = [JStr ''os.system'']\<rparr>"

text \<open>A snippet whose second line imports a module that the headless profile blocks.\<close>

definition socket_snippet :: string where
  "socket_snippet = ''import os'' @ [LF] @ ''from socket import gethostname''"

text \<open>A configuration whose default profile is the least strict of the built-in ones.\<close>

definition analysis_cfg :: pydict where
  "analysis_cfg = deep_merge DEFAULT_CFG [(''profile'', JStr ''analysis'')]"

text \<open>An override of one leaf of the defaults.\<close>

definition leaf_override :: pydict where
  "leaf_override =
     [(''policy_overrides'', JObj [(''headless'', JObj [(''blocked_imports'', JList [JStr ''ctypes''])])])]"

section \<open>Properties\<close>

subsection \<open>Configuration loading\<close>

lemma deep_merge_step:
  "deep_merge dst ((k, v) # src) = deep_merge (AList.update k (merged_value (map_of dst k) v) dst) src"
  by (cases v) (simp_all add: merged_value_def split: option.splits json.splits)

lemma deep_merge_other:
  "k \<notin> fst ` set src \<Longrightarrow> map_of (deep_merge dst src) k = map_of dst k"
proof (induction src arbitrary: dst)
  case Nil
  then show ?case by simp
next
  case (Cons kv src)
  obtain k' v where kv: "kv = (k', v)" by (cases kv)
  from Cons.prems kv have "k \<noteq> k'" and "k \<notin> fst ` set src" by auto
  then show ?case
    using Cons.IH[of "AList.update k' (merged_value (map_of dst k') v) dst"]
    by (simp add: kv deep_merge_step update_conv' del: deep_merge.simps)
qed

lemma deep_merge_named:
  "distinct (map fst src) \<Longrightarrow> map_of src k = Some v \<Longrightarrow>
   map_of (deep_merge dst src) k = Some (merged_value (map_of dst k) v)"
proof (induction src arbitrary: dst)
  case Nil
  then show ?case by simp
next
  case (Cons kv src)
  obtain k' v' where kv: "kv = (k', v')" by (cases kv)
  show ?case
  proof (cases "k = k'")
    case True
    with Cons.prems kv have notin: "k \<notin> fst ` set src" and v: "v' = v" by auto
    show ?thesis
      using True v deep_merge_other[OF notin]
      by (simp add: kv deep_merge_step update_conv' del: deep_merge.simps)
  next
    case False
    with Cons.prems kv have d: "distinct (map fst src)" and m: "map_of src k = Some v" by auto
    show ?thesis
      using False Cons.IH[OF d m, of "AList.update k' (merged_value (map_of dst k') v') dst"]
      by (simp add: kv deep_merge_step update_conv' del: deep_merge.simps)
  qed
qed

lemma load_cfg_non_dict:
  "\<forall>d. data \<noteq> JObj d \<Longrightarrow> load_cfg (CfgParsed data) = (DEFAULT_CFG, CfgParsed data)"
  by (cases data) (simp_all add: load_cfg_def merge_loaded_def)

lemma load_cfg_dict:
  "load_cfg (CfgParsed (JObj src)) = (deep_merge DEFAULT_CFG src, CfgParsed (JObj src))"
  by (cases src) (simp_all add: load_cfg_def merge_loaded_def del: deep_merge.simps)

text \<open>
  C8. Loading the configuration: a missing file is created from the defaults and the
  defaults are returned; a file that cannot be read as JSON, or whose JSON value is not an
  object, gives the defaults, the exception being caught inside; a JSON object is merged
  over the defaults by \<^verbatim>\<open>deep_merge\<close>. After a deep merge a key the override does not
  name keeps its value, and a key it names holds the override's value, merged recursively
  when both sides are objects, so the siblings inside that subtree are kept as well.
\<close>

theorem load_cfg_deep_merge:
  "load_cfg CfgMissing = (DEFAULT_CFG, CfgParsed (JObj DEFAULT_CFG)) \<and>
   load_cfg CfgUnreadable = (DEFAULT_CFG, CfgUnreadable) \<and>
   ((\<forall>d. data \<noteq> JObj d) \<longrightarrow> load_cfg (CfgParsed data) = (DEFAULT_CFG, CfgParsed data)) \<and>
   load_cfg (CfgParsed (JObj src)) = (deep_merge DEFAULT_CFG src, CfgParsed (JObj src)) \<and>
   (k \<notin> fst ` set src \<longrightarrow> map_of (deep_merge dst src) k = map_of dst k) \<and>
   (distinct (map fst src) \<and> map_of src k = Some v \<longrightarrow>
      map_of (deep_merge dst src) k = Some (merged_value (map_of dst k) v))"
proof (intro conjI impI)
  show "load_cfg CfgMissing = (DEFAULT_CFG, CfgParsed (JObj DEFAULT_CFG))"
    by (simp add: load_cfg_def)
  show "load_cfg CfgUnreadable = (DEFAULT_CFG, CfgUnreadable)"
    by (simp add: load_cfg_def)
  show "load_cfg (CfgParsed data) = (DEFAULT_CFG, CfgParsed data)" if "\<forall>d. data \<noteq> JObj d"
    using that by (rule load_cfg_non_dict)
  show "load_cfg (CfgParsed (JObj src)) = (deep_merge DEFAULT_CFG src, CfgParsed (JObj src))"
    by (rule load_cfg_dict)
  show "map_of (deep_merge dst src) k = map_of dst k" if "k \<notin> fst ` set src"
    using that by (rule deep_merge_other)
  show "map_of (deep_merge dst src) k = Some (merged_value (map_of dst k) v)"
    if "distinct (map fst src) \<and> map_of src k = Some v"
    using that deep_merge_named[of src k v dst] by blast
qed

theorem load_cfg_deep_merge_witness:
  "fst (load_cfg (CfgParsed (JList [JInt 1]))) = DEFAULT_CFG \<and>
   map_of (fst (load_cfg (CfgParsed (JObj leaf_override)))) ''profile'' = Some (JStr ''headless'') \<and>
   map_of (fst (load_cfg (CfgParsed (JObj leaf_override)))) ''policy_overrides'' =
     Some (JObj
       [(''headless'', JObj [(''blocked_imports'', JList [JStr ''ctypes'']),
                             (''blocked_calls'', JList [JStr ''os.system''])]),
        (''iot'', policy_entry [''matplotlib'', ''tkinter'', ''pygame'', ''requests'', ''socket'']
                               [''os.system'']),
        (''analysis'', policy_entry [''tkinter'', ''pygame'', ''socket''] [''os.system''])])"
  using load_cfg_deep_merge[of "JList [JInt 1]" leaf_override "''profile''" DEFAULT_CFG]
    load_cfg_deep_merge[of JNull leaf_override "''policy_overrides''" DEFAULT_CFG
        "JObj [(''headless'', JObj [(''blocked_imports'', JList [JStr ''ctypes''])])]"]
  by (simp add: leaf_override_def DEFAULT_CFG_def merged_value_def policy_entry_def)

subsection \<open>Profile resolution\<close>

text \<open>
  C9 (as amended). \<^verbatim>\<open>get_profile\<close> returns the caller's profile name whenever one is given
  and not empty, whether the configuration knows it or not. With no name (or an empty one)
  it returns the \<^verbatim>\<open>profile\<close> entry of the configuration, \<^verbatim>\<open>headless\<close> when there is none.
  The environment descriptor is never consulted: two descriptors give the same profile.
  The counterexample to the claim as stated: a remote (SSH) host and a local one both get
  the profile \<^verbatim>\<open>analysis\<close> when that is the configured default.
\<close>

theorem get_profile_override_or_config:
  "(s \<noteq> [] \<longrightarrow> get_profile e (Some s) cfg = JStr s) \<and>
   get_profile e (Some []) cfg = dict_get cfg ''profile'' (JStr ''headless'') \<and>
   get_profile e None cfg = dict_get cfg ''profile'' (JStr ''headless'') \<and>
   get_profile e ov cfg = get_profile e' ov cfg"
  by (simp add: get_profile_def)

theorem get_profile_override_or_config_witness:
  "get_profile (detect_environment remote_host) (Some ''iot'') DEFAULT_CFG = JStr ''iot'' \<and>
   get_profile (detect_environment remote_host) None DEFAULT_CFG = JStr ''headless''"
  using get_profile_override_or_config[of "''iot''" "detect_environment remote_host" DEFAULT_CFG]
  by (simp add: dict_get_def DEFAULT_CFG_def)

theorem profile_ignores_environment_counterexample:
  "is_ssh (detect_environment remote_host) \<and> \<not> is_ssh (detect_environment local_host) \<and>
   get_profile (detect_environment remote_host) None analysis_cfg = JStr ''analysis'' \<and>
   get_profile (detect_environment local_host) None analysis_cfg = JStr ''analysis''"
  by (simp add: get_profile_def analysis_cfg_def DEFAULT_CFG_def dict_get_def detect_environment_def
      remote_host_def local_host_def get_or_def str_bool_def)

subsection \<open>A profile name the configuration does not know\<close>

lemma lines_loop_empty_policy:
  "blocked_imports pol = [] \<Longrightarrow> blocked_calls pol = [] \<Longrightarrow> lines_loop pol i Ls out = Inr out"
  by (induction Ls arbitrary: i out) simp_all

lemma policy_absent:
  assumes "dict_get cfg ''policy_overrides'' (JObj []) = JObj table" "map_of table name = None"
  shows "policy_for_profile (JStr name) cfg = Inr \<lparr>blocked_imports = [], blocked_calls = []\<rparr>"
  using assms by (simp add: policy_for_profile_def py_get_def dict_get_def py_list_def)

text \<open>
  C10. When the \<^verbatim>\<open>policy_overrides\<close> table of the configuration has no entry for a profile
  name, the policy resolved for that name has no blocked imports and no blocked calls:
  the preflight scan returns the empty list for every source text, the import finder of
  the wrapper lets every module name pass, \<^verbatim>\<open>os.system\<close> is not replaced, and the wrapper
  runs the target as if nothing were intercepted. The name is not replaced by a default
  either: \<^verbatim>\<open>get_profile\<close> returns it as given.
\<close>

theorem unknown_profile_disables_policy:
  assumes "dict_get cfg ''policy_overrides'' (JObj []) = JObj table"
    and "map_of table name = None"
  shows "\<exists>policy. policy_for_profile (JStr name) cfg = Inr policy \<and>
           blocked_imports policy = [] \<and> blocked_calls policy = [] \<and>
           (\<forall>code_str. preflight_check code_str policy = Inr []) \<and>
           (\<forall>fullname. find_spec policy fullname = None) \<and>
           \<not> os_system_replaced policy \<and>
           (\<forall>prog. exec_wrapper policy prog = guard (prog (\<lambda>fullname. None) False)) \<and>
           (name \<noteq> [] \<longrightarrow> get_profile e (Some name) cfg = JStr name)"
proof -
  let ?p = "\<lparr>blocked_imports = [], blocked_calls = []\<rparr>"
  have 1: "policy_for_profile (JStr name) cfg = Inr ?p"
    using assms by (rule policy_absent)
  have 2: "preflight_check code_str ?p = Inr []" for code_str
    by (simp add: preflight_check_def lines_loop_empty_policy)
  have 3: "find_spec ?p = (\<lambda>fullname. None)"
    by (simp add: find_spec_def fun_eq_iff)
  have 4: "\<not> os_system_replaced ?p"
    by (simp add: os_system_replaced_def)
  have 5: "exec_wrapper ?p prog = guard (prog (\<lambda>fullname. None) False)" for prog
    using 3 4 by (simp add: exec_wrapper_def)
  have 6: "name \<noteq> [] \<longrightarrow> get_profile e (Some name) cfg = JStr name"
    by (simp add: get_profile_def)
  show ?thesis
    using 1 2 3 4 5 6 by (intro exI[of _ ?p]) simp
qed

theorem unknown_profile_disables_policy_witness:
  "\<exists>policy. policy_for_profile (JStr ''hedless'') DEFAULT_CFG = Inr policy \<and>
     preflight_check (''import socket'' @ [LF] @ ''os.system(1)'') policy = Inr [] \<and>
     find_spec policy ''socket.timeout'' = None \<and>
     get_profile (detect_environment local_host) (Some ''hedless'') DEFAULT_CFG = JStr ''hedless''"
proof -
  have a: "dict_get DEFAULT_CFG ''policy_overrides'' (JObj []) = JObj
         [(''headless'', policy_entry [''matplotlib'', ''tkinter'', ''pygame'', ''requests'', ''socket'']
                                      [''os.system'']),
          (''iot'', policy_entry [''matplotlib'', ''tkinter'', ''pygame'', ''requests'', ''socket'']
                                 [''os.system'']),
          (''analysis'', policy_entry [''tkinter'', ''pygame'', ''socket''] [''os.system''])]"
    by (simp add: dict_get_def DEFAULT_CFG_def)
  show ?thesis
    using unknown_profile_disables_policy[OF a, of "''hedless''" "detect_environment local_host"]
    by auto
qed

subsection \<open>The process runner\<close>

lemma execute_user_code_events:
  "new_events w (snd (execute_user_code w cp pol tmo)) =
     [WriteText (wrap_path w 0) (wrapper_source cp pol),
      Spawn (runner_request w (wrap_path w 0) tmo),
      Unlink (wrap_path w 0)]"
  by (simp add: execute_user_code_def new_events_def fresh_uuid_def write_text_def emit_def unlink_def
      runner_request_def TMP_DIR_def wrap_path_def Let_def split: prod.splits)

text \<open>
  C2. What the code does for the request the sandbox runner makes: \<^verbatim>\<open>_execute_user_code\<close>
  writes the wrapper, calls \<^verbatim>\<open>subprocess.run\<close> once and unlinks the wrapper; the request has
  a wall-clock timeout and no \<^verbatim>\<open>preexec_fn\<close>, so no ceiling on address space or CPU time is
  set for the child. The runner of gpt_chat_v3.py, used when the sandbox module is not
  available, passes \<^verbatim>\<open>_preexec_resource_limits\<close> (256 MB, 30 s).
\<close>

theorem sandbox_runner_sets_no_resource_limits:
  "new_events w (snd (execute_user_code w cp pol tmo)) =
     [WriteText (wrap_path w 0) (wrapper_source cp pol),
      Spawn (runner_request w (wrap_path w 0) tmo),
      Unlink (wrap_path w 0)] \<and>
   preexec_fn (runner_request w (wrap_path w 0) tmo) = None \<and>
   timeout_sec (runner_request w (wrap_path w 0) tmo) = Some tmo \<and>
   preexec_fn (legacy_request cmd) = Some (ResourceLimits 268435456 30)"
  by (simp add: execute_user_code_events runner_request_def legacy_request_def preexec_resource_limits_def)

text \<open>
  C3. What the code does when the child outlives the timeout: \<^verbatim>\<open>_execute_user_code\<close>
  returns code 124, the error text \<^verbatim>\<open>Timeout after Ns\<close> and an empty output, whatever the
  child had written before it was killed. The example has a child that wrote to both
  streams; the runner of gpt_chat_v3.py returns such text on its timeout path.
\<close>

theorem timeout_returns_marker_only:
  assumes "\<forall>r fs. fst (subprocess_run w r fs) = TimeoutExpired out err"
  shows "\<exists>ms. fst (execute_user_code w cp pol tmo) =
           Inr (124, [], ''Timeout after '' @ str_int tmo @ ''s'', ms)"
proof -
  let ?wp = "TMP_DIR w @ ''/wrap_'' @ uuid4_hex w (uuid_calls w) @ ''.py''"
  obtain oc ms where r: "subprocess_run w (runner_request w ?wp tmo)
      ((files w)(?wp \<mapsto> wrapper_source cp pol)) = (oc, ms)"
    by (cases "subprocess_run w (runner_request w ?wp tmo) ((files w)(?wp \<mapsto> wrapper_source cp pol))")
  with assms have "oc = TimeoutExpired out err"
    by (metis fst_conv)
  with r show ?thesis
    by (simp add: execute_user_code_def fresh_uuid_def write_text_def emit_def unlink_def
      runner_request_def TMP_DIR_def Let_def)
qed

theorem timeout_returns_marker_only_witness:
  "fst (execute_user_code (example_world child_hangs) ''/tmp/loop.py'' headless_policy 8) =
     Inr (124, [], ''Timeout after 8s'', 8003) \<and>
   fst (child_hangs (legacy_request []) Map.empty) = TimeoutExpired (''tick'' @ [LF]) (''warming up'' @ [LF]) \<and>
   legacy_timeout_output 200000 (''tick'' @ [LF]) (''warming up'' @ [LF]) =
     (''tick'' @ [LF], ''warming up'' @ [LF])"
proof -
  have h: "\<forall>r fs. fst (subprocess_run (example_world child_hangs) r fs) =
      TimeoutExpired (''tick'' @ [LF]) (''warming up'' @ [LF])"
    by (simp add: example_world_def child_hangs_def)
  have s: "str_int 8 = ''8''"
    by (simp add: str_int_def digit_char_def)
  from timeout_returns_marker_only[OF h, of "''/tmp/loop.py''" headless_policy 8] s
  show ?thesis
    by (simp add: execute_user_code_def fresh_uuid_def write_text_def emit_def unlink_def
      runner_request_def TMP_DIR_def Let_def example_world_def child_hangs_def legacy_timeout_output_def)
qed

subsection \<open>The wrapper's guard\<close>

text \<open>
  C4 (as amended). The wrapper exits with code 2, after writing \<^verbatim>\<open>str(e)\<close> and a newline to
  the error stream, whenever the run of the target raises an \<^verbatim>\<open>ImportError\<close> of any kind;
  the blocked-import error of the finder is one of them. Any other exception below
  \<^verbatim>\<open>Exception\<close> makes it print the traceback and exit with code 1. A run that returns ends
  with code 0. Whenever the guard ends a failed run, the code is 2 or 1 and the text
  written is not empty. The counterexample to the claim as stated: a target that imports
  a module that is not installed and not blocked ends with code 2 as well.
\<close>

theorem wrapper_guard_exit_codes:
  "(prog (find_spec pol) (os_system_replaced pol) = Returned \<longrightarrow> exec_wrapper pol prog = Exit 0 []) \<and>
   (prog (find_spec pol) (os_system_replaced pol) = Raised e \<and> is_subclass (exc_cls e) ImportError \<longrightarrow>
      exec_wrapper pol prog = Exit 2 (exc_str e @ [LF])) \<and>
   (prog (find_spec pol) (os_system_replaced pol) = Raised e \<and> \<not> is_subclass (exc_cls e) ImportError \<and>
      is_subclass (exc_cls e) Exception \<longrightarrow> exec_wrapper pol prog = Exit 1 (print_exc e)) \<and>
   (prog (find_spec pol) (os_system_replaced pol) = Raised e \<and> exec_wrapper pol prog = Exit c txt \<longrightarrow>
      (c = 2 \<or> c = 1) \<and> txt \<noteq> []) \<and>
   is_blocked_import_error (blocked_import_error root stack) \<and>
   is_subclass (exc_cls (blocked_import_error root stack)) ImportError"
  by (auto simp: exec_wrapper_def guard_def print_exc_def is_blocked_import_error_def
      blocked_import_error_def blocked_import_text_def starts_def split: if_splits)

theorem wrapper_guard_exit_codes_witness:
  "exec_wrapper headless_policy (\<lambda>finder off. case finder ''socket.timeout'' of
       Some root \<Rightarrow> Raised (blocked_import_error root []) | None \<Rightarrow> Returned) =
     Exit 2 (blocked_import_text ''socket'' @ [LF])"
  using wrapper_guard_exit_codes[of "\<lambda>finder off. case finder ''socket.timeout'' of
       Some root \<Rightarrow> Raised (blocked_import_error root []) | None \<Rightarrow> Returned" headless_policy
       "blocked_import_error ''socket'' []"]
  by (simp add: find_spec_def split_root_def headless_policy_def blocked_import_error_def)

theorem exit_2_without_blocked_import_counterexample:
  "\<not> is_blocked_import_error missing_module_error \<and>
   find_spec headless_policy ''numpy'' = None \<and>
   exec_wrapper headless_policy imports_numpy =
     Exit 2 (''No module named '' @ [quote] @ ''numpy'' @ [quote] @ [LF])"
  by (simp add: is_blocked_import_error_def missing_module_error_def exec_wrapper_def guard_def
      imports_numpy_def find_spec_def split_root_def headless_policy_def)

subsection \<open>The world after each step\<close>

lemma emit_static:
  "host_info (emit w e) = host_info w"
  "home_dir (emit w e) = home_dir w"
  "sys_executable (emit w e) = sys_executable w"
  "uuid4_hex (emit w e) = uuid4_hex w"
  "subprocess_run (emit w e) = subprocess_run w"
  "resolve_path (emit w e) = resolve_path w"
  "int_of_str (emit w e) = int_of_str w"
  "has_bus (emit w e) = has_bus w"
  "has_intelligence (emit w e) = has_intelligence w"
  "has_integration (emit w e) = has_integration w"
  "has_code_registry (emit w e) = has_code_registry w"
  "has_auto_heal (emit w e) = has_auto_heal w"
  "files (emit w e) = files w"
  "uuid_calls (emit w e) = uuid_calls w"
  "cfg_state (emit w e) = cfg_state w"
  by (simp_all add: emit_def)

lemma publish_static:
  "host_info (publish w t) = host_info w"
  "home_dir (publish w t) = home_dir w"
  "sys_executable (publish w t) = sys_executable w"
  "uuid4_hex (publish w t) = uuid4_hex w"
  "subprocess_run (publish w t) = subprocess_run w"
  "resolve_path (publish w t) = resolve_path w"
  "int_of_str (publish w t) = int_of_str w"
  "has_bus (publish w t) = has_bus w"
  "has_intelligence (publish w t) = has_intelligence w"
  "has_integration (publish w t) = has_integration w"
  "has_code_registry (publish w t) = has_code_registry w"
  "has_auto_heal (publish w t) = has_auto_heal w"
  "files (publish w t) = files w"
  "uuid_calls (publish w t) = uuid_calls w"
  "cfg_state (publish w t) = cfg_state w"
  by (simp_all add: publish_def emit_def)

lemma log_event_static:
  "host_info (log_event w r) = host_info w"
  "home_dir (log_event w r) = home_dir w"
  "sys_executable (log_event w r) = sys_executable w"
  "uuid4_hex (log_event w r) = uuid4_hex w"
  "subprocess_run (log_event w r) = subprocess_run w"
  "resolve_path (log_event w r) = resolve_path w"
  "int_of_str (log_event w r) = int_of_str w"
  "has_bus (log_event w r) = has_bus w"
  "has_intelligence (log_event w r) = has_intelligence w"
  "has_integration (log_event w r) = has_integration w"
  "has_code_registry (log_event w r) = has_code_registry w"
  "has_auto_heal (log_event w r) = has_auto_heal w"
  "files (log_event w r) = files w"
  "uuid_calls (log_event w r) = uuid_calls w"
  "cfg_state (log_event w r) = cfg_state w"
  by (simp_all add: log_event_def emit_def)

lemma write_text_static:
  "host_info (write_text w p s) = host_info w"
  "home_dir (write_text w p s) = home_dir w"
  "sys_executable (write_text w p s) = sys_executable w"
  "uuid4_hex (write_text w p s) = uuid4_hex w"
  "subprocess_run (write_text w p s) = subprocess_run w"
  "resolve_path (write_text w p s) = resolve_path w"
  "int_of_str (write_text w p s) = int_of_str w"
  "has_bus (write_text w p s) = has_bus w"
  "has_intelligence (write_text w p s) = has_intelligence w"
  "has_integration (write_text w p s) = has_integration w"
  "has_code_registry (write_text w p s) = has_code_registry w"
  "has_auto_heal (write_text w p s) = has_auto_heal w"
  "uuid_calls (write_text w p s) = uuid_calls w"
  "cfg_state (write_text w p s) = cfg_state w"
  by (simp_all add: write_text_def emit_def)

lemma unlink_static:
  "host_info (unlink w p) = host_info w"
  "home_dir (unlink w p) = home_dir w"
  "sys_executable (unlink w p) = sys_executable w"
  "uuid4_hex (unlink w p) = uuid4_hex w"
  "subprocess_run (unlink w p) = subprocess_run w"
  "resolve_path (unlink w p) = resolve_path w"
  "int_of_str (unlink w p) = int_of_str w"
  "has_bus (unlink w p) = has_bus w"
  "has_intelligence (unlink w p) = has_intelligence w"
  "has_integration (unlink w p) = has_integration w"
  "has_code_registry (unlink w p) = has_code_registry w"
  "has_auto_heal (unlink w p) = has_auto_heal w"
  "uuid_calls (unlink w p) = uuid_calls w"
  "cfg_state (unlink w p) = cfg_state w"
  by (simp_all add: unlink_def emit_def)

lemma fresh_uuid_static:
  "host_info (snd (fresh_uuid w)) = host_info w"
  "home_dir (snd (fresh_uuid w)) = home_dir w"
  "sys_executable (snd (fresh_uuid w)) = sys_executable w"
  "uuid4_hex (snd (fresh_uuid w)) = uuid4_hex w"
  "subprocess_run (snd (fresh_uuid w)) = subprocess_run w"
  "resolve_path (snd (fresh_uuid w)) = resolve_path w"
  "int_of_str (snd (fresh_uuid w)) = int_of_str w"
  "has_bus (snd (fresh_uuid w)) = has_bus w"
  "has_intelligence (snd (fresh_uuid w)) = has_intelligence w"
  "has_integration (snd (fresh_uuid w)) = has_integration w"
  "has_code_registry (snd (fresh_uuid w)) = has_code_registry w"
  "has_auto_heal (snd (fresh_uuid w)) = has_auto_heal w"
  "files (snd (fresh_uuid w)) = files w"
  "trace (snd (fresh_uuid w)) = trace w"
  "cfg_state (snd (fresh_uuid w)) = cfg_state w"
  by (simp_all add: fresh_uuid_def)

lemma load_cfg_in_static:
  "host_info (snd (load_cfg_in w)) = host_info w"
  "home_dir (snd (load_cfg_in w)) = home_dir w"
  "sys_executable (snd (load_cfg_in w)) = sys_executable w"
  "uuid4_hex (snd (load_cfg_in w)) = uuid4_hex w"
  "subprocess_run (snd (load_cfg_in w)) = subprocess_run w"
  "resolve_path (snd (load_cfg_in w)) = resolve_path w"
  "int_of_str (snd (load_cfg_in w)) = int_of_str w"
  "has_bus (snd (load_cfg_in w)) = has_bus w"
  "has_intelligence (snd (load_cfg_in w)) = has_intelligence w"
  "has_integration (snd (load_cfg_in w)) = has_integration w"
  "has_code_registry (snd (load_cfg_in w)) = has_code_registry w"
  "has_auto_heal (snd (load_cfg_in w)) = has_auto_heal w"
  "files (snd (load_cfg_in w)) = files w"
  "uuid_calls (snd (load_cfg_in w)) = uuid_calls w"
  by (simp_all add: load_cfg_in_def emit_def split: prod.splits)

lemma analyse_intent_static:
  "host_info (snd (analyse_intent w pr ov)) = host_info w"
  "home_dir (snd (analyse_intent w pr ov)) = home_dir w"
  "sys_executable (snd (analyse_intent w pr ov)) = sys_executable w"
  "uuid4_hex (snd (analyse_intent w pr ov)) = uuid4_hex w"
  "subprocess_run (snd (analyse_intent w pr ov)) = subprocess_run w"
  "resolve_path (snd (analyse_intent w pr ov)) = resolve_path w"
  "int_of_str (snd (analyse_intent w pr ov)) = int_of_str w"
  "has_bus (snd (analyse_intent w pr ov)) = has_bus w"
  "has_intelligence (snd (analyse_intent w pr ov)) = has_intelligence w"
  "has_integration (snd (analyse_intent w pr ov)) = has_integration w"
  "has_code_registry (snd (analyse_intent w pr ov)) = has_code_registry w"
  "has_auto_heal (snd (analyse_intent w pr ov)) = has_auto_heal w"
  "files (snd (analyse_intent w pr ov)) = files w"
  "uuid_calls (snd (analyse_intent w pr ov)) = uuid_calls w"
  "cfg_state (snd (analyse_intent w pr ov)) = cfg_state w"
  by (simp_all add: analyse_intent_def publish_def emit_def Let_def)

lemma execute_user_code_static:
  "host_info (snd (execute_user_code w cp pol tmo)) = host_info w"
  "home_dir (snd (execute_user_code w cp pol tmo)) = home_dir w"
  "sys_executable (snd (execute_user_code w cp pol tmo)) = sys_executable w"
  "uuid4_hex (snd (execute_user_code w cp pol tmo)) = uuid4_hex w"
  "subprocess_run (snd (execute_user_code w cp pol tmo)) = subprocess_run w"
  "resolve_path (snd (execute_user_code w cp pol tmo)) = resolve_path w"
  "int_of_str (snd (execute_user_code w cp pol tmo)) = int_of_str w"
  "has_bus (snd (execute_user_code w cp pol tmo)) = has_bus w"
  "has_intelligence (snd (execute_user_code w cp pol tmo)) = has_intelligence w"
  "has_integration (snd (execute_user_code w cp pol tmo)) = has_integration w"
  "has_code_registry (snd (execute_user_code w cp pol tmo)) = has_code_registry w"
  "has_auto_heal (snd (execute_user_code w cp pol tmo)) = has_auto_heal w"
  "cfg_state (snd (execute_user_code w cp pol tmo)) = cfg_state w"
  by (simp_all add: execute_user_code_def fresh_uuid_def write_text_def unlink_def emit_def Let_def split: prod.splits)

lemmas world_static = emit_static publish_static log_event_static write_text_static unlink_static
  fresh_uuid_static load_cfg_in_static analyse_intent_static execute_user_code_static

lemma trace_emit: "trace (emit w e) = trace w @ [e]"
  by (simp add: emit_def)

lemma trace_publish: "trace (publish w t) = trace w @ bus_events w t"
  by (simp add: publish_def emit_def bus_events_def)

lemma trace_log_event: "trace (log_event w r) = trace w @ [LogEvent r]"
  by (simp add: log_event_def emit_def)

lemma trace_write_text: "trace (write_text w p s) = trace w @ [WriteText p s]"
  by (simp add: write_text_def emit_def)

lemma trace_unlink: "trace (unlink w p) = trace w @ [Unlink p]"
  by (simp add: unlink_def emit_def)

lemma files_write_text: "files (write_text w p s) = (files w)(p \<mapsto> s)"
  by (simp add: write_text_def emit_def)

lemma files_unlink: "files (unlink w p) = (files w)(p := None)"
  by (simp add: unlink_def emit_def)

lemma trace_load_cfg_in: "trace (snd (load_cfg_in w)) = trace w @ cfg_events w"
  by (simp add: load_cfg_in_def emit_def cfg_events_def split: prod.splits)

lemma trace_analyse_intent: "trace (snd (analyse_intent w pr ov)) = trace w @ intent_events w pr"
  by (simp add: analyse_intent_def publish_def emit_def intent_events_def bus_events_def Let_def)

lemma fresh_uuid_value:
  "uuid_calls (snd (fresh_uuid w)) = Suc (uuid_calls w)"
  "fst (fresh_uuid w) = uuid4_hex w (uuid_calls w)"
  by (simp_all add: fresh_uuid_def)

lemma trace_execute_user_code:
  "trace (snd (execute_user_code w cp pol tmo)) = trace w @
     [WriteText (wrap_path w 0) (wrapper_source cp pol),
      Spawn (runner_request w (wrap_path w 0) tmo),
      Unlink (wrap_path w 0)]"
  by (simp add: execute_user_code_def fresh_uuid_def write_text_def emit_def unlink_def
      runner_request_def TMP_DIR_def wrap_path_def Let_def split: prod.splits)

lemma files_execute_user_code:
  "files (snd (execute_user_code w cp pol tmo)) = (files w)(wrap_path w 0 := None)"
  by (simp add: execute_user_code_def fresh_uuid_def write_text_def emit_def unlink_def
      TMP_DIR_def wrap_path_def Let_def split: prod.splits)

lemmas world_trace = trace_emit trace_publish trace_log_event trace_write_text trace_unlink
  trace_load_cfg_in trace_analyse_intent trace_execute_user_code

lemmas world_files = files_write_text files_unlink files_execute_user_code

lemma quiet_events:
  "\<not> written p (cfg_events w)" "\<not> written p (intent_events w pr)" "\<not> written p (bus_events w tp)"
  "Spawn r \<notin> set (cfg_events w)" "Spawn r \<notin> set (intent_events w pr)"
  "Spawn r \<notin> set (bus_events w tp)"
  by (simp_all add: cfg_events_def intent_events_def bus_events_def written_def)



subsection \<open>Cleaning up composes\<close>



lemma new_events_append: "trace w' = trace w @ es \<Longrightarrow> new_events w w' = es"
  by (simp add: new_events_def)










subsection \<open>Evaluating the examples\<close>

lemmas regex_eval = splitlines_def is_linebreak_def is_word_def is_space_def re_search_import_def
  re_search_call_def kw_here_def call_here_def lit_b_def boundary_def word_opt_def next_char_def
  starts_def CR_def LF_def

lemmas run_eval = run_snippet_def run_file_def snippet_body_def execute_user_code_def load_cfg_in_def
  load_cfg_def analyse_intent_def detect_environment_def get_profile_def policy_for_profile_def
  py_get_def py_list_def dict_get_def DEFAULT_CFG_def policy_entry_def
  publish_def log_event_def emit_def write_text_def unlink_def fresh_uuid_def TMP_DIR_def
  runner_request_def py_int_def rejected_def finished_def add_validation_def mk_log_def
  example_world_def local_host_def get_or_def str_bool_def Let_def

lemma example_policy:
  "snippet_policy (example_world ch) None None = Inr headless_policy"
  "file_policy (example_world ch) None = Inr headless_policy"
  by (simp_all add: snippet_policy_def file_policy_def headless_policy_def run_eval)

lemma headless_strings: "strings_only headless_policy"
  by (simp add: strings_only_def headless_policy_def)

lemma print_preflight:
  "preflight_check ''print(1)''
     \<lparr>blocked_imports = [JStr ''matplotlib'', JStr ''tkinter'', JStr ''pygame'', JStr ''requests'', JStr ''socket''],
      blocked_calls = [JStr ''os.system'']\<rparr> = Inr []"
  by (simp add: preflight_check_def regex_eval)


subsection \<open>The import pattern matches the import shapes\<close>

lemma search_import_prefix:
  "kw_here (if pre = [] then prev else Some (last pre)) m s \<Longrightarrow> search_import prev m (pre @ s)"
proof (induction pre arbitrary: prev)
  case Nil
  then show ?case by (cases s) simp_all
next
  case (Cons c cs)
  have "kw_here (if cs = [] then Some c else Some (last cs)) m s"
    using Cons.prems by (simp split: if_splits)
  then have "search_import (Some c) m (cs @ s)" by (rule Cons.IH)
  then show ?case by simp
qed

lemma after_ws_run:
  "ws \<noteq> [] \<Longrightarrow> list_all is_space ws \<Longrightarrow> lit_b (last ws) m rest \<Longrightarrow> after_ws m (ws @ rest)"
proof (induction ws)
  case Nil
  then show ?case by simp
next
  case (Cons c cs)
  then show ?case by (cases "cs = []") simp_all
qed

lemma lit_b_here:
  assumes "m \<noteq> []" "is_word (last m)" "post = [] \<or> \<not> is_word (hd post)"
  shows "lit_b c m (m @ post)"
  using assms by (cases post) (simp_all add: lit_b_def starts_def boundary_def word_opt_def next_char_def)

lemma import_shape_matches:
  assumes "import_shape pre kw ws m post"
  shows "re_search_import m (import_line pre kw ws m post)"
proof -
  from assms have pre: "pre = [] \<or> \<not> is_word (last pre)"
    and kw: "kw = ''import'' \<or> kw = ''from''"
    and ws: "ws \<noteq> []" "list_all is_space ws"
    and m: "m \<noteq> []" "is_word (last m)"
    and post: "post = [] \<or> \<not> is_word (hd post)"
    by (simp_all add: import_shape_def)
  have "lit_b (last ws) m (m @ post)" using m post by (rule lit_b_here)
  with ws have aw: "after_ws m (ws @ m @ post)" by (rule after_ws_run)
  have b: "boundary (if pre = [] then None else Some (last pre)) (kw @ ws @ m @ post)"
    using pre kw by (auto simp: boundary_def word_opt_def next_char_def is_word_def)
  have "kw_here (if pre = [] then None else Some (last pre)) m (kw @ ws @ m @ post)"
    using kw aw b by (auto simp: kw_here_def starts_def)
  then have "search_import None m (pre @ kw @ ws @ m @ post)" by (rule search_import_prefix)
  then show ?thesis by (simp add: re_search_import_def import_line_def)
qed

subsection \<open>What the scan reports\<close>

lemma imports_loop_total:
  "list_all is_JStr ms \<Longrightarrow> \<exists>res. imports_loop L i ms out = Inr res"
proof (induction ms arbitrary: out)
  case Nil
  then show ?case by simp
next
  case (Cons a ms)
  then show ?case by (cases a) simp_all
qed

lemma calls_loop_total:
  "list_all is_JStr cs \<Longrightarrow> \<exists>res. calls_loop L i cs out = Inr res"
proof (induction cs arbitrary: out)
  case Nil
  then show ?case by simp
next
  case (Cons a cs)
  then show ?case by (cases a) simp_all
qed

lemma lines_loop_total:
  "strings_only pol \<Longrightarrow> \<exists>res. lines_loop pol i Ls out = Inr res"
proof (induction Ls arbitrary: i out)
  case Nil
  then show ?case by simp
next
  case (Cons L Ls)
  from Cons.prems obtain o1 where 1: "imports_loop L i (blocked_imports pol) out = Inr o1"
    using imports_loop_total[of "blocked_imports pol" L i out] by (auto simp: strings_only_def)
  from Cons.prems obtain o2 where 2: "calls_loop L i (blocked_calls pol) o1 = Inr o2"
    using calls_loop_total[of "blocked_calls pol" L i o1] by (auto simp: strings_only_def)
  from Cons.IH[OF Cons.prems, of "Suc i" o2] 1 2 show ?case by simp
qed

lemma imports_loop_reports:
  "imports_loop L i ms out = Inr res \<Longrightarrow>
   set out \<subseteq> set res \<and> (\<forall>m. JStr m \<in> set ms \<and> re_search_import m L \<longrightarrow> import_msg m i \<in> set res)"
proof (induction ms arbitrary: out)
  case Nil
  then show ?case by simp
next
  case (Cons a ms)
  show ?case
  proof (cases a)
    case (JStr s)
    let ?out = "if re_search_import s L then out @ [import_msg s i] else out"
    from Cons.prems JStr have "imports_loop L i ms ?out = Inr res" by simp
    from Cons.IH[OF this] show ?thesis using JStr by (auto split: if_splits)
  qed (use Cons.prems in simp_all)
qed

lemma calls_loop_keeps:
  "calls_loop L i cs out = Inr res \<Longrightarrow> set out \<subseteq> set res"
proof (induction cs arbitrary: out)
  case Nil
  then show ?case by simp
next
  case (Cons a cs)
  show ?case
  proof (cases a)
    case (JStr s)
    let ?out = "if re_search_call s L then out @ [call_msg s i] else out"
    from Cons.prems JStr have "calls_loop L i cs ?out = Inr res" by simp
    from Cons.IH[OF this] show ?thesis by (auto split: if_splits)
  qed (use Cons.prems in simp_all)
qed

lemma lines_loop_reports:
  "lines_loop pol i Ls out = Inr res \<Longrightarrow>
   set out \<subseteq> set res \<and>
   (\<forall>k m. k < length Ls \<and> JStr m \<in> set (blocked_imports pol) \<and> re_search_import m (Ls ! k)
      \<longrightarrow> import_msg m (i + k) \<in> set res)"
proof (induction Ls arbitrary: i out)
  case Nil
  then show ?case by simp
next
  case (Cons L Ls)
  from Cons.prems obtain o1 o2 where
    1: "imports_loop L i (blocked_imports pol) out = Inr o1" and
    2: "calls_loop L i (blocked_calls pol) o1 = Inr o2" and
    3: "lines_loop pol (Suc i) Ls o2 = Inr res"
    by (auto split: sum.splits)
  note a = imports_loop_reports[OF 1] and b = calls_loop_keeps[OF 2] and c = Cons.IH[OF 3]
  show ?case
  proof (intro conjI allI impI)
    show "set out \<subseteq> set res" using a b c by blast
    fix k m
    assume h: "k < length (L # Ls) \<and> JStr m \<in> set (blocked_imports pol) \<and> re_search_import m ((L # Ls) ! k)"
    show "import_msg m (i + k) \<in> set res"
    proof (cases k)
      case 0
      with h a b c show ?thesis by auto
    next
      case (Suc j)
      with h c show ?thesis by auto
    qed
  qed
qed

lemma join_contains: "x \<in> set xs \<Longrightarrow> \<exists>a b. join sep xs = a @ x @ b"
proof (induction sep xs rule: join.induct)
  case (1 sep)
  then show ?case by simp
next
  case (2 sep y)
  then have "join sep [y] = [] @ x @ []" by simp
  then show ?case by blast
next
  case (3 sep y z zs)
  show ?case
  proof (cases "x = y")
    case True
    then have "join sep (y # z # zs) = [] @ x @ (sep @ join sep (z # zs))" by simp
    then show ?thesis by blast
  next
    case False
    with "3.prems" have "x \<in> set (z # zs)" by simp
    from "3.IH"[OF this] obtain a b where "join sep (z # zs) = a @ x @ b" by blast
    then have "join sep (y # z # zs) = (y @ sep @ a) @ x @ b" by simp
    then show ?thesis by blast
  qed
qed

subsection \<open>The early exits\<close>

lemma run_snippet_rejected:
  assumes "snippet_policy w prompt ov = Inr policy"
    and "preflight_check code_str policy = Inr findings" and "findings \<noteq> []"
  shows "\<exists>res w'. run_snippet w code_str prompt ov = (Inr res, w') \<and> \<not> ok res \<and> returncode res = 2 \<and>
           stdout res = [] \<and> stderr res = join [LF] findings \<and> files w' = files w \<and>
           (\<forall>r. Spawn r \<notin> set (new_events w w'))"
proof -
  obtain cfg w1 where l: "load_cfg_in w = (cfg, w1)" by (cases "load_cfg_in w")
  obtain ov1 w2 where a: "analyse_intent w1 prompt ov = (ov1, w2)" by (cases "analyse_intent w1 prompt ov")
  have w1: "trace w1 = trace w @ cfg_events w" "files w1 = files w"
    using trace_load_cfg_in[of w] load_cfg_in_static[of w] l by simp_all
  have w2: "trace w2 = trace w @ cfg_events w @ intent_events w1 prompt" "files w2 = files w"
    using trace_analyse_intent[of w1 prompt ov] analyse_intent_static[of w1 prompt ov] a w1 by simp_all
  from assms(1) l a have pol: "policy_for_profile (get_profile (detect_environment (host_info w1)) ov1 cfg) cfg = Inr policy"
    by (simp add: snippet_policy_def)
  show ?thesis
    using l a pol assms(2,3) w2
    by (simp add: run_snippet_def Let_def rejected_def new_events_def world_trace world_static quiet_events)
qed


text \<open>
  C1 (as amended). Let the active policy hold strings only and block the module root
  \<open>m\<close>. If some line of the snippet has \<^verbatim>\<open>import\<close> or \<^verbatim>\<open>from\<close> starting a word, then
  whitespace, then \<open>m\<close> directly, with no word character after it, then \<^verbatim>\<open>run_snippet\<close>
  returns a result with \<^verbatim>\<open>ok\<close> false and return code 2 whose error text contains the
  violation message naming \<open>m\<close> and the 1-based number of that line; no file is written and
  no child process is started. The counterexample to the claim as stated: in
  \<^verbatim>\<open>import os, socket\<close> the blocked root is not the first name after the keyword, the scan
  finds nothing, and the snippet reaches the runner; it is the wrapper that ends the child,
  with an error text that has no line number.
\<close>

theorem blocked_import_rejected_before_run:
  assumes "snippet_policy w prompt ov = Inr policy" and "strings_only policy"
    and "JStr m \<in> set (blocked_imports policy)"
    and "k < length (splitlines code_str)"
    and "splitlines code_str ! k = import_line pre kw ws m post"
    and "import_shape pre kw ws m post"
  shows "\<exists>res w'. run_snippet w code_str prompt ov = (Inr res, w') \<and> \<not> ok res \<and> returncode res = 2 \<and>
           (\<exists>a b. stderr res = a @ import_msg m (Suc k) @ b) \<and> files w' = files w \<and>
           (\<forall>r. Spawn r \<notin> set (new_events w w'))"
proof -
  from lines_loop_total[OF assms(2), of 1 "splitlines code_str" "[]"] obtain findings
    where f: "preflight_check code_str policy = Inr findings"
    unfolding preflight_check_def by blast
  have "re_search_import m (splitlines code_str ! k)"
    using import_shape_matches[OF assms(6)] assms(5) by simp
  with lines_loop_reports[of policy 1 "splitlines code_str" "[]" findings] f assms(3,4)
  have mem: "import_msg m (Suc k) \<in> set findings"
    by (auto simp: preflight_check_def)
  then have ne: "findings \<noteq> []" by auto
  from run_snippet_rejected[OF assms(1) f ne] obtain res w'
    where r: "run_snippet w code_str prompt ov = (Inr res, w')" "\<not> ok res" "returncode res = 2"
      "stderr res = join [LF] findings" "files w' = files w" "\<forall>r. Spawn r \<notin> set (new_events w w')"
    by blast
  from join_contains[OF mem, of "[LF]"] r(4)
  have "\<exists>a b. stderr res = a @ import_msg m (Suc k) @ b" by simp
  with r show ?thesis by blast
qed

theorem blocked_import_rejected_before_run_witness:
  "\<exists>res w'. run_snippet (example_world child_ok) socket_snippet None None
       = (Inr res, w') \<and> \<not> ok res \<and> returncode res = 2 \<and>
     (\<exists>a b. stderr res = a @ import_msg ''socket'' (Suc 1) @ b) \<and> files w' = files (example_world child_ok) \<and>
     (\<forall>r. Spawn r \<notin> set (new_events (example_world child_ok) w'))"
proof -
  have 1: "JStr ''socket'' \<in> set (blocked_imports headless_policy)"
    by (simp add: headless_policy_def)
  have 2: "splitlines socket_snippet =
      [''import os'', ''from socket import gethostname'']"
    by (simp add: socket_snippet_def splitlines_def is_linebreak_def LF_def CR_def)
  have 3: "1 < length (splitlines socket_snippet)"
    by (simp add: 2)
  have 4: "splitlines socket_snippet ! 1 =
      import_line [] ''from'' '' '' ''socket'' '' import gethostname''"
    by (simp add: 2 import_line_def)
  have 5: "import_shape [] ''from'' '' '' ''socket'' '' import gethostname''"
    by (simp add: import_shape_def is_space_def is_word_def)
  show ?thesis
    by (rule blocked_import_rejected_before_run[OF example_policy(1) headless_strings 1 3 4 5])
qed

theorem import_list_reaches_runner_counterexample:
  "snippet_policy (example_world child_blocked) None None = Inr headless_policy \<and>
   JStr ''socket'' \<in> set (blocked_imports headless_policy) \<and>
   preflight_check ''import os, socket'' headless_policy = Inr [] \<and>
   list_ex is_spawn (trace (snd (run_snippet (example_world child_blocked) ''import os, socket'' None None))) \<and>
   fst (run_snippet (example_world child_blocked) ''import os, socket'' None None) =
     Inr \<lparr>ok = False, stdout = [], stderr = blocked_import_text ''socket'' @ [LF], returncode = 2,
          res_env = detect_environment local_host, res_profile = JStr ''headless'', duration_ms = 40,
          valid = None, suggestion = None\<rparr> \<and>
   \<not> contains ''line'' (blocked_import_text ''socket'' @ [LF])"
proof (intro conjI)
  show "snippet_policy (example_world child_blocked) None None = Inr headless_policy"
    by (rule example_policy)
  show "JStr ''socket'' \<in> set (blocked_imports headless_policy)"
    by (simp add: headless_policy_def)
  show p: "preflight_check ''import os, socket'' headless_policy = Inr []"
    by (simp add: preflight_check_def headless_policy_def regex_eval)
  then have p': "preflight_check ''import os, socket''
     \<lparr>blocked_imports = [JStr ''matplotlib'', JStr ''tkinter'', JStr ''pygame'', JStr ''requests'', JStr ''socket''],
      blocked_calls = [JStr ''os.system'']\<rparr> = Inr []"
    by (simp add: headless_policy_def)
  show "list_ex is_spawn (trace (snd (run_snippet (example_world child_blocked) ''import os, socket'' None None)))"
    by (simp add: p' run_eval child_blocked_def)
  show "fst (run_snippet (example_world child_blocked) ''import os, socket'' None None) =
     Inr \<lparr>ok = False, stdout = [], stderr = blocked_import_text ''socket'' @ [LF], returncode = 2,
          res_env = detect_environment local_host, res_profile = JStr ''headless'', duration_ms = 40,
          valid = None, suggestion = None\<rparr>"
    by (simp add: p' run_eval child_blocked_def)
  show "\<not> contains ''line'' (blocked_import_text ''socket'' @ [LF])"
    by (simp add: blocked_import_text_def quote_def LF_def starts_def)
qed

subsection \<open>The result invariant\<close>

lemma add_validation_fields:
  "ok (add_validation w r) = ok r" "returncode (add_validation w r) = returncode r"
  "stdout (add_validation w r) = stdout r" "stderr (add_validation w r) = stderr r"
  by (simp_all add: add_validation_def Let_def)

lemma snippet_ok:
  "run_snippet w code_str prompt ov = (Inr res, w') \<Longrightarrow>
   ok res = (returncode res = 0 \<and> findings_of code_str (snippet_policy w prompt ov) = [])"
  by (auto simp: run_snippet_def snippet_policy_def findings_of_def snippet_body_def rejected_def
      finished_def Let_def add_validation_fields split: prod.splits sum.splits if_splits)

lemma file_ok:
  assumes "run_file w path ov = (Inr res, w')"
  shows "ok res = (returncode res = 0 \<and> file_findings w path ov = [])"
proof -
  obtain cfg w1 where l: "load_cfg_in w = (cfg, w1)" by (cases "load_cfg_in w")
  have f: "files w1 = files w" "resolve_path w1 = resolve_path w"
    using load_cfg_in_static[of w] l by simp_all
  show ?thesis
    using assms l f
    by (auto simp: run_file_def file_policy_def file_findings_def findings_of_def rejected_def
      finished_def Let_def add_validation_fields publish_static
      split: prod.splits sum.splits if_splits option.splits)
qed

text \<open>
  C5. In every result that \<^verbatim>\<open>run_snippet\<close> or \<^verbatim>\<open>run_file\<close> returns, \<^verbatim>\<open>ok\<close> is true exactly
  when the return code is 0 and the preflight violation list of the request is empty.
\<close>

theorem ok_iff_zero_and_no_findings:
  "(run_snippet w code_str prompt ov = (Inr res, w') \<longrightarrow>
      ok res = (returncode res = 0 \<and> findings_of code_str (snippet_policy w prompt ov) = [])) \<and>
   (run_file w path ov = (Inr res, w') \<longrightarrow>
      ok res = (returncode res = 0 \<and> file_findings w path ov = []))"
  using snippet_ok[of w code_str prompt ov res w'] file_ok[of w path ov res w'] by blast

theorem ok_iff_zero_and_no_findings_witness:
  "ok (finished 0 (''hello'' @ [LF]) [] 35 (detect_environment local_host) (JStr ''headless'')) \<and>
   findings_of ''print(1)'' (snippet_policy (example_world child_ok) None None) = [] \<and>
   fst (run_snippet (example_world child_ok) ''print(1)'' None None) =
     Inr (finished 0 (''hello'' @ [LF]) [] 35 (detect_environment local_host) (JStr ''headless''))"
proof -
  obtain res w' where r: "run_snippet (example_world child_ok) ''print(1)'' None None = (res, w')"
    by (cases "run_snippet (example_world child_ok) ''print(1)'' None None")
  have e: "res = Inr (finished 0 (''hello'' @ [LF]) [] 35 (detect_environment local_host) (JStr ''headless''))"
    using r[symmetric] by (simp add: print_preflight run_eval child_ok_def)
  from ok_iff_zero_and_no_findings[of "example_world child_ok" "''print(1)''" None None
      "finished 0 (''hello'' @ [LF]) [] 35 (detect_environment local_host) (JStr ''headless'')" w'] r e
  show ?thesis
    by (simp add: finished_def)
qed

subsection \<open>A path that names no file\<close>





end
